theory Spec2Isabelle
  imports Main "HOL-Library.Word"
begin

section \<open>The YAK kernel: data model\<close>

text \<open>
  A shallow embedding of the C sources \<^verbatim>\<open>yak_c.c\<close> and \<^verbatim>\<open>yak_help.c\<close> (with
  \<^verbatim>\<open>kernel.h\<close>, \<^verbatim>\<open>helper.h\<close>, \<^verbatim>\<open>user.h\<close>) and of \<^verbatim>\<open>YKTickHandler\<close> in
  \<^verbatim>\<open>handlers.c\<close>.

  \<^item> \<^verbatim>\<open>int\<close> and \<^verbatim>\<open>unsigned\<close> are 16-bit words (the target is the 8086; \<^verbatim>\<open>yak_c.c\<close>
    speaks of "1 integer (2 bytes)"), \<^verbatim>\<open>unsigned char\<close> is an 8-bit word. Signed
    comparisons read a word with \<open>sint\<close>, unsigned ones use the order of the words.
  \<^item> A \<^verbatim>\<open>TCBPtr\<close> is \<open>None\<close> for \<^verbatim>\<open>NULL\<close> and \<open>Some i\<close> for \<^verbatim>\<open>&YKTasks[i]\<close>.
    A pointer to a semaphore or a queue is its index in \<^verbatim>\<open>YKSemaphores\<close> or
    \<^verbatim>\<open>YKQueues\<close>. The pools hold \<^verbatim>\<open>MAX_TASKS+1\<close>, \<^verbatim>\<open>MAX_SEMAPHORES\<close> and
    \<^verbatim>\<open>MAX_QUEUES\<close> elements. An allocator hands out \<^verbatim>\<open>&pool[n]\<close> for its counter
    \<^verbatim>\<open>n\<close>, a \<^verbatim>\<open>static int\<close>, whether or not \<^verbatim>\<open>n\<close> is an index of the pool; the
    write through a pointer that is not in the pool is the fault \<open>OutOfBounds\<close>. So
    every pointer that a create returns is in its pool, and these are the pointers
    the other kernel functions are called with.
  \<^item> The message slots of the queues (caller-owned arrays of \<^verbatim>\<open>void *\<close>) live in one
    store \<open>msgmem\<close> addressed by \<open>int\<close>, one address per slot; a message is an \<open>int\<close>.
  \<^item> Reading or writing through \<^verbatim>\<open>NULL\<close> has no defined behaviour in C: in the model
    it is the fault \<open>NullDeref\<close>, and a function that runs into it returns no state.
  \<^item> The machine context of a task (saved stack pointer, stack base, the stack
    contents and the registers on it) belongs to the assembly dispatcher and is not
    part of the state modelled here; the fields \<^verbatim>\<open>sp\<close> and \<^verbatim>\<open>stackBottom\<close> of a TCB
    and the stack frame that \<^verbatim>\<open>YKNewTask\<close> manufactures are left out.
  \<^item> \<^verbatim>\<open>printString\<close> appends its argument to \<open>console\<close>.
  \<^item> \<^verbatim>\<open>MsgQPtr\<close> and \<^verbatim>\<open>MsgArray\<close> are globals of the demo application that the
    tick handler uses; \<^verbatim>\<open>MsgQPtr\<close> is \<^verbatim>\<open>NULL\<close> until the application has created its
    queue, and the pointer to \<^verbatim>\<open>MsgArray[i]\<close> is the message \<open>i\<close>. The macro
    \<^verbatim>\<open>MSGARRAYSIZE\<close> of \<^verbatim>\<open>application.h\<close>, which is not among the sources, is a
    parameter of the handler, and \<^verbatim>\<open>MsgArray\<close> has that many elements.
  \<^item> The fields \<^verbatim>\<open>next\<close>, \<^verbatim>\<open>prev\<close>, \<^verbatim>\<open>value\<close>, \<^verbatim>\<open>start\<close>, \<^verbatim>\<open>end\<close> and the two
    \<^verbatim>\<open>pendHead\<close> carry a suffix (\<open>T\<close> for a TCB, \<open>S\<close> for a semaphore, \<open>Q\<close> for a queue).
\<close>

type_synonym tcbptr = "nat option"

record TCB =
  taskID :: "16 word"
  delayCount :: "16 word"
  priority :: "8 word"
  nextT :: tcbptr
  prevT :: tcbptr

record YKSEM =
  valueS :: "16 word"
  pendHeadS :: tcbptr

record YKQ =
  numEntries :: "16 word"
  maxEntries :: "16 word"
  startQ :: int
  endQ :: int
  nextSlot :: int
  nextMsg :: int
  pendHeadQ :: tcbptr

record msg =
  tick :: "16 word"
  data :: "16 word"

record kstate =
  YKCtxSwCount :: "16 word"
  YKIdleCount :: "16 word"
  YKTickNum :: "16 word"
  YKInterruptNestLevel :: "16 word"
  YKStartedFlag :: "8 word"
  YKSemaphores :: "nat \<Rightarrow> YKSEM"
  YKQueues :: "nat \<Rightarrow> YKQ"
  YKTasks :: "nat \<Rightarrow> TCB"
  YKCurrentTask :: tcbptr
  YKReadyHead :: tcbptr
  YKReadyTail :: tcbptr
  YKDelayedHead :: tcbptr
  YKDelayedTail :: tcbptr
  taskIDCount :: "16 word"
  numTasksCreated :: "16 word"
  numSemaphoresCreated :: "16 word"
  numQueuesCreated :: "16 word"
  msgmem :: "int \<Rightarrow> int"
  intEnabled :: bool
  console :: "string list"
  MsgQPtr :: "nat option"
  MsgArray :: "int \<Rightarrow> msg"
  index :: "16 word"
  pseudoRand :: "16 word"

definition IDLE_TASK_ID :: "16 word" where
  "IDLE_TASK_ID = 0"

definition MAX_TASKS :: nat where
  "MAX_TASKS = 64"

definition MAX_SEMAPHORES :: nat where
  "MAX_SEMAPHORES = 64"

definition MAX_QUEUES :: nat where
  "MAX_QUEUES = 64"

definition LOWEST_TASK_PRIORITY :: "8 word" where
  "LOWEST_TASK_PRIORITY = 100"

subsection \<open>Results: return, fault, no return\<close>

text \<open>
  A kernel function returns \<open>Some (Inr x)\<close> when it returns \<open>x\<close>, \<open>Some (Inl e)\<close> when it
  runs into the fault \<open>e\<close>, and \<open>None\<close> when one of its loops never ends.
\<close>

datatype error = NullDeref | OutOfBounds

type_synonym 'a result = "(error + 'a) option"

definition ok :: "'a \<Rightarrow> 'a result" where
  "ok x = Some (Inr x)"

definition fault :: "error \<Rightarrow> 'a result" where
  "fault e = Some (Inl e)"

definition bindR :: "'a result \<Rightarrow> ('a \<Rightarrow> 'b result) \<Rightarrow> 'b result" where
  "bindR m f = (case m of None \<Rightarrow> None | Some (Inl e) \<Rightarrow> Some (Inl e) | Some (Inr x) \<Rightarrow> f x)"

text \<open>
  The pointer \<^verbatim>\<open>&pool[i]\<close> into a pool of \<open>n\<close> elements, about to be written through.
\<close>

definition inPool :: "nat \<Rightarrow> int \<Rightarrow> nat result" where
  "inPool n i = (if 0 \<le> i \<and> i < int n then ok (nat i) else fault OutOfBounds)"

text \<open>\<open>getT s p\<close> reads \<^verbatim>\<open>*p\<close>; \<open>modT p f s\<close> writes \<open>f\<close> of the old value to \<^verbatim>\<open>*p\<close>.\<close>

definition getT :: "kstate \<Rightarrow> tcbptr \<Rightarrow> TCB result" where
  "getT s p = (case p of None \<Rightarrow> fault NullDeref | Some i \<Rightarrow> ok (YKTasks s i))"

definition modT :: "tcbptr \<Rightarrow> (TCB \<Rightarrow> TCB) \<Rightarrow> kstate \<Rightarrow> kstate result" where
  "modT p f s =
     (case p of None \<Rightarrow> fault NullDeref
      | Some i \<Rightarrow> ok (s\<lparr>YKTasks := (YKTasks s)(i := f (YKTasks s i))\<rparr>))"

definition modS :: "nat \<Rightarrow> (YKSEM \<Rightarrow> YKSEM) \<Rightarrow> kstate \<Rightarrow> kstate" where
  "modS i f s = s\<lparr>YKSemaphores := (YKSemaphores s)(i := f (YKSemaphores s i))\<rparr>"

definition modQ :: "nat \<Rightarrow> (YKQ \<Rightarrow> YKQ) \<Rightarrow> kstate \<Rightarrow> kstate" where
  "modQ i f s = s\<lparr>YKQueues := (YKQueues s)(i := f (YKQueues s i))\<rparr>"

definition printString :: "string \<Rightarrow> kstate \<Rightarrow> kstate" where
  "printString str s = s\<lparr>console := console s @ [str]\<rparr>"

subsection \<open>The assembly primitives\<close>

text \<open>
  Modelled from the spec: \<^verbatim>\<open>YKEnterMutex\<close>, \<^verbatim>\<open>YKExitMutex\<close> and \<^verbatim>\<open>YKDispatcher\<close> are
  assembly routines that are declared in \<^verbatim>\<open>kernel.h\<close> and whose code is not among the
  sources. \<^verbatim>\<open>YKEnterMutex\<close> returns the prior interrupt-enable state and disables
  interrupts; \<^verbatim>\<open>YKExitMutex\<close> enables them. The dispatcher swaps the machine context
  and sets the current task to the head of the ready list; of this the model keeps the
  new current task.
\<close>

definition YKEnterMutex :: "kstate \<Rightarrow> bool \<times> kstate" where
  "YKEnterMutex s = (intEnabled s, s\<lparr>intEnabled := False\<rparr>)"

definition YKExitMutex :: "kstate \<Rightarrow> kstate" where
  "YKExitMutex s = s\<lparr>intEnabled := True\<rparr>"

definition YKDispatcher :: "kstate \<Rightarrow> kstate" where
  "YKDispatcher s = s\<lparr>YKCurrentTask := YKReadyHead s\<rparr>"

text \<open>The closing \<^verbatim>\<open>if (iStatus) YKExitMutex();\<close> of the kernel functions.\<close>

definition restoreMutex :: "bool \<Rightarrow> kstate \<Rightarrow> kstate" where
  "restoreMutex iStatus s = (if iStatus then YKExitMutex s else s)"

section \<open>The helper functions (\<^verbatim>\<open>yak_help.c\<close>)\<close>

definition nl :: string where
  "nl = [CHR 0x0A, CHR 0x0D]"

definition err_insertReady_null :: string where
  "err_insertReady_null = ''ERROR in insertReady(): cannot insert NULL pointer.'' @ nl"

definition err_insertReady_lowest :: string where
  "err_insertReady_lowest =
     ''ERROR in insertReady(): New task priority shouldn't be lowest in ready queue!'' @ nl"

definition err_removeReady_idle :: string where
  "err_removeReady_idle =
     ''ERROR in removeReady(): Cannot remove IDLE task from ready list!'' @ nl"

definition err_removeReady_empty :: string where
  "err_removeReady_empty =
     ''ERROR in removeReady(): Trying to remove from an empty list.'' @ nl"

definition err_insertDelayed_null :: string where
  "err_insertDelayed_null = ''ERROR in insertDelayed(): cannot insert NULL pointer.'' @ nl"

definition err_insertDelayed_idle :: string where
  "err_insertDelayed_idle = ''ERROR in insertDelayed(): Cannot delay IDLE task!'' @ nl"

definition err_insertPendSem_null :: string where
  "err_insertPendSem_null = ''ERROR in insertPendSem(): cannot insert NULL pointer.'' @ nl"

definition err_insertPendQ_null :: string where
  "err_insertPendQ_null = ''ERROR in insertPendQ(): cannot insert NULL pointer.'' @ nl"

definition err_allocateTCB :: string where
  "err_allocateTCB = ''ERROR in allocateTCB(): storage space exceeded.'' @ nl"

definition err_allocateSemaphore :: string where
  "err_allocateSemaphore = ''ERROR in allocateSemaphore(): storage space exceeded.'' @ nl"

definition err_allocateQueue :: string where
  "err_allocateQueue = ''ERROR in allocateQueue(): storage space exceeded.'' @ nl"

definition err_YKRun :: string where
  "err_YKRun = ''ERROR in YKRun(): function should not return!'' @ nl"

definition err_YKDelayTask :: string where
  "err_YKDelayTask = ''ERROR in YKDelayTask(): invalid delay count.'' @ nl"

subsection \<open>The ready list\<close>

text \<open>
  The loop of case 2.3 of \<^verbatim>\<open>insertReady\<close>:
  \<^verbatim>\<open>while(curTCB->priority < newTCB->priority) curTCB = curTCB->next;\<close>
\<close>

partial_function (option) insertReady_loop :: "kstate \<Rightarrow> tcbptr \<Rightarrow> tcbptr \<Rightarrow> tcbptr result" where
  "insertReady_loop s curTCB newTCB =
     (case curTCB of None \<Rightarrow> Some (Inl NullDeref)
      | Some c \<Rightarrow>
          (case newTCB of None \<Rightarrow> Some (Inl NullDeref)
           | Some n \<Rightarrow>
               if priority (YKTasks s c) < priority (YKTasks s n)
               then insertReady_loop s (nextT (YKTasks s c)) newTCB
               else Some (Inr curTCB)))"

definition insertReady :: "kstate \<Rightarrow> tcbptr \<Rightarrow> kstate result" where
  "insertReady s newTCB =
     (if newTCB = None then ok (printString err_insertReady_null s)
      else if YKReadyHead s = None then
        bindR (modT newTCB (\<lambda>t. t\<lparr>prevT := None, nextT := None\<rparr>)
                 (s\<lparr>YKReadyHead := newTCB, YKReadyTail := newTCB\<rparr>)) ok
      else
        bindR (getT s newTCB) (\<lambda>n.
        bindR (getT s (YKReadyHead s)) (\<lambda>h.
        if priority n < priority h then
          bindR (modT (YKReadyHead s) (\<lambda>t. t\<lparr>prevT := newTCB\<rparr>) s) (\<lambda>s1.
          bindR (modT newTCB (\<lambda>t. t\<lparr>nextT := YKReadyHead s1\<rparr>) s1) (\<lambda>s2.
          bindR (modT newTCB (\<lambda>t. t\<lparr>prevT := None\<rparr>) s2) (\<lambda>s3.
          ok (s3\<lparr>YKReadyHead := newTCB\<rparr>))))
        else
          bindR (getT s (YKReadyTail s)) (\<lambda>tl.
          if priority tl < priority n then
            bindR (modT (YKReadyTail s) (\<lambda>t. t\<lparr>nextT := newTCB\<rparr>)
                     (printString err_insertReady_lowest s)) (\<lambda>s1.
            bindR (modT newTCB (\<lambda>t. t\<lparr>prevT := YKReadyTail s1\<rparr>) s1) (\<lambda>s2.
            bindR (modT newTCB (\<lambda>t. t\<lparr>nextT := None\<rparr>) s2) (\<lambda>s3.
            ok (s3\<lparr>YKReadyTail := newTCB\<rparr>))))
          else
            bindR (insertReady_loop s (YKReadyHead s) newTCB) (\<lambda>curTCB.
            bindR (getT s curTCB) (\<lambda>c.
            bindR (modT (prevT c) (\<lambda>t. t\<lparr>nextT := newTCB\<rparr>) s) (\<lambda>s1.
            bindR (getT s1 curTCB) (\<lambda>c1.
            bindR (modT newTCB (\<lambda>t. t\<lparr>prevT := prevT c1\<rparr>) s1) (\<lambda>s2.
            bindR (modT curTCB (\<lambda>t. t\<lparr>prevT := newTCB\<rparr>) s2) (\<lambda>s3.
            modT newTCB (\<lambda>t. t\<lparr>nextT := curTCB\<rparr>) s3))))))))))"

definition removeReady :: "kstate \<Rightarrow> tcbptr \<Rightarrow> kstate result" where
  "removeReady s remTask =
     bindR (getT s remTask) (\<lambda>r.
     if taskID r = IDLE_TASK_ID then ok (printString err_removeReady_idle s)
     else if YKReadyHead s = None then ok (printString err_removeReady_empty s)
     else if YKReadyHead s = remTask \<and> YKReadyTail s = remTask then
       modT remTask (\<lambda>t. t\<lparr>prevT := None, nextT := None\<rparr>)
         (s\<lparr>YKReadyHead := None, YKReadyTail := None\<rparr>)
     else if YKReadyHead s = remTask then
       bindR (modT (nextT r) (\<lambda>t. t\<lparr>prevT := None\<rparr>) (s\<lparr>YKReadyHead := nextT r\<rparr>)) (\<lambda>s1.
       modT remTask (\<lambda>t. t\<lparr>nextT := None\<rparr>) s1)
     else if YKReadyTail s = remTask then
       bindR (modT (prevT r) (\<lambda>t. t\<lparr>nextT := None\<rparr>) (s\<lparr>YKReadyTail := prevT r\<rparr>)) (\<lambda>s1.
       modT remTask (\<lambda>t. t\<lparr>prevT := None\<rparr>) s1)
     else
       bindR (modT (nextT r) (\<lambda>t. t\<lparr>prevT := prevT r\<rparr>) s) (\<lambda>s1.
       bindR (getT s1 remTask) (\<lambda>r1.
       bindR (modT (prevT r1) (\<lambda>t. t\<lparr>nextT := nextT r1\<rparr>) s1) (\<lambda>s2.
       modT remTask (\<lambda>t. t\<lparr>nextT := None, prevT := None\<rparr>) s2))))"

subsection \<open>The delayed list\<close>

text \<open>
  The loop of \<^verbatim>\<open>insertDelayed\<close>:
  \<^verbatim>\<open>while ((newTCB->delayCount >= curTCB->delayCount) && (curTCB != NULL))\<close>
  \<^verbatim>\<open>{ newTCB->delayCount -= curTCB->delayCount; curTCB = curTCB->next; }\<close>
  The left operand of \<^verbatim>\<open>&&\<close> is evaluated first: it reads \<^verbatim>\<open>curTCB->delayCount\<close>
  before \<^verbatim>\<open>curTCB\<close> is compared with \<^verbatim>\<open>NULL\<close>.
\<close>

partial_function (option) insertDelayed_loop ::
    "kstate \<Rightarrow> tcbptr \<Rightarrow> tcbptr \<Rightarrow> (kstate \<times> tcbptr) result" where
  "insertDelayed_loop s curTCB newTCB =
     (case newTCB of None \<Rightarrow> Some (Inl NullDeref)
      | Some n \<Rightarrow>
          (case curTCB of None \<Rightarrow> Some (Inl NullDeref)
           | Some c \<Rightarrow>
               if sint (delayCount (YKTasks s c)) \<le> sint (delayCount (YKTasks s n))
                  \<and> curTCB \<noteq> None
               then
                 (let s1 = s\<lparr>YKTasks := (YKTasks s)
                             (n := (YKTasks s n)\<lparr>delayCount :=
                                delayCount (YKTasks s n) - delayCount (YKTasks s c)\<rparr>)\<rparr>
                  in insertDelayed_loop s1 (nextT (YKTasks s1 c)) newTCB)
               else Some (Inr (s, curTCB))))"

definition insertDelayed :: "kstate \<Rightarrow> tcbptr \<Rightarrow> kstate result" where
  "insertDelayed s newTCB =
     (if newTCB = None then ok (printString err_insertDelayed_null s)
      else
        bindR (getT s newTCB) (\<lambda>n.
        if taskID n = IDLE_TASK_ID then ok (printString err_insertDelayed_idle s)
        else if YKDelayedHead s = None then
          modT newTCB (\<lambda>t. t\<lparr>prevT := None, nextT := None\<rparr>)
            (s\<lparr>YKDelayedHead := newTCB, YKDelayedTail := newTCB\<rparr>)
        else
          bindR (getT s (YKDelayedHead s)) (\<lambda>h.
          if sint (delayCount n) < sint (delayCount h) then
            bindR (modT (YKDelayedHead s)
                     (\<lambda>t. t\<lparr>delayCount := delayCount t - delayCount n\<rparr>) s) (\<lambda>s1.
            bindR (modT (YKDelayedHead s1) (\<lambda>t. t\<lparr>prevT := newTCB\<rparr>) s1) (\<lambda>s2.
            bindR (modT newTCB (\<lambda>t. t\<lparr>nextT := YKDelayedHead s2\<rparr>) s2) (\<lambda>s3.
            bindR (modT newTCB (\<lambda>t. t\<lparr>prevT := None\<rparr>) s3) (\<lambda>s4.
            ok (s4\<lparr>YKDelayedHead := newTCB\<rparr>)))))
          else
            bindR (insertDelayed_loop s (YKDelayedHead s) newTCB) (\<lambda>(s1, curTCB).
            if curTCB = None then
              bindR (modT (YKDelayedTail s1) (\<lambda>t. t\<lparr>nextT := newTCB\<rparr>) s1) (\<lambda>s2.
              bindR (modT newTCB (\<lambda>t. t\<lparr>prevT := YKDelayedTail s2\<rparr>) s2) (\<lambda>s3.
              bindR (modT newTCB (\<lambda>t. t\<lparr>nextT := None\<rparr>) s3) (\<lambda>s4.
              ok (s4\<lparr>YKDelayedTail := newTCB\<rparr>))))
            else
              bindR (getT s1 curTCB) (\<lambda>c.
              bindR (modT (prevT c) (\<lambda>t. t\<lparr>nextT := newTCB\<rparr>) s1) (\<lambda>s2.
              bindR (getT s2 curTCB) (\<lambda>c2.
              bindR (modT newTCB (\<lambda>t. t\<lparr>prevT := prevT c2\<rparr>) s2) (\<lambda>s3.
              bindR (modT curTCB (\<lambda>t. t\<lparr>prevT := newTCB\<rparr>) s3) (\<lambda>s4.
              bindR (modT newTCB (\<lambda>t. t\<lparr>nextT := curTCB\<rparr>) s4) (\<lambda>s5.
              bindR (getT s5 newTCB) (\<lambda>n5.
              modT (nextT n5) (\<lambda>t. t\<lparr>delayCount := delayCount t - delayCount n5\<rparr>) s5)))))))))))"

definition removeDelayed :: "kstate \<Rightarrow> (kstate \<times> tcbptr) result" where
  "removeDelayed s =
     (if YKDelayedHead s = None then ok (s, None)
      else
        bindR (getT s (YKDelayedHead s)) (\<lambda>h.
        if delayCount h = 0 then
          (let tmp = YKDelayedHead s; s1 = s\<lparr>YKDelayedHead := nextT h\<rparr>
           in bindR (modT (YKDelayedHead s1) (\<lambda>t. t\<lparr>prevT := None\<rparr>) s1) (\<lambda>s2.
              bindR (modT tmp (\<lambda>t. t\<lparr>nextT := None\<rparr>) s2) (\<lambda>s3.
              ok (s3, tmp))))
        else ok (s, None)))"

subsection \<open>The pending lists\<close>

text \<open>
  The loop that \<^verbatim>\<open>insertPendSem\<close> and \<^verbatim>\<open>insertPendQ\<close> share word for word:
  \<^verbatim>\<open>while (curTCB->priority < newTCB->priority)\<close>
  \<^verbatim>\<open>{ if (curTCB->next == NULL) break; else curTCB = curTCB->next; }\<close>
\<close>

partial_function (option) insertPend_loop :: "kstate \<Rightarrow> tcbptr \<Rightarrow> tcbptr \<Rightarrow> tcbptr result" where
  "insertPend_loop s curTCB newTCB =
     (case curTCB of None \<Rightarrow> Some (Inl NullDeref)
      | Some c \<Rightarrow>
          (case newTCB of None \<Rightarrow> Some (Inl NullDeref)
           | Some n \<Rightarrow>
               if priority (YKTasks s c) < priority (YKTasks s n)
               then (if nextT (YKTasks s c) = None then Some (Inr curTCB)
                     else insertPend_loop s (nextT (YKTasks s c)) newTCB)
               else Some (Inr curTCB)))"

text \<open>
  Case 2.2 of both functions, from the loop to the placement of the task; \<open>pendHead\<close>
  is the head of the pending list, which this case leaves as it is.
\<close>

definition insertPend_notHighest :: "kstate \<Rightarrow> tcbptr \<Rightarrow> tcbptr \<Rightarrow> kstate result" where
  "insertPend_notHighest s pendHead newTCB =
     bindR (insertPend_loop s pendHead newTCB) (\<lambda>curTCB.
     bindR (getT s curTCB) (\<lambda>c.
     bindR (getT s newTCB) (\<lambda>n.
     if nextT c = None \<and> priority c < priority n then
       bindR (modT curTCB (\<lambda>t. t\<lparr>nextT := newTCB\<rparr>) s) (\<lambda>s1.
       bindR (modT newTCB (\<lambda>t. t\<lparr>prevT := curTCB\<rparr>) s1) (\<lambda>s2.
       modT newTCB (\<lambda>t. t\<lparr>nextT := None\<rparr>) s2))
     else
       bindR (modT (prevT c) (\<lambda>t. t\<lparr>nextT := newTCB\<rparr>) s) (\<lambda>s1.
       bindR (getT s1 curTCB) (\<lambda>c1.
       bindR (modT newTCB (\<lambda>t. t\<lparr>prevT := prevT c1\<rparr>) s1) (\<lambda>s2.
       bindR (modT curTCB (\<lambda>t. t\<lparr>prevT := newTCB\<rparr>) s2) (\<lambda>s3.
       modT newTCB (\<lambda>t. t\<lparr>nextT := curTCB\<rparr>) s3)))))))"

definition insertPendSem :: "kstate \<Rightarrow> tcbptr \<Rightarrow> nat \<Rightarrow> kstate result" where
  "insertPendSem s newTCB ptr =
     (if newTCB = None then ok (printString err_insertPendSem_null s)
      else if pendHeadS (YKSemaphores s ptr) = None then
        modT newTCB (\<lambda>t. t\<lparr>prevT := None, nextT := None\<rparr>)
          (modS ptr (\<lambda>m. m\<lparr>pendHeadS := newTCB\<rparr>) s)
      else
        bindR (getT s newTCB) (\<lambda>n.
        bindR (getT s (pendHeadS (YKSemaphores s ptr))) (\<lambda>h.
        if priority n < priority h then
          bindR (modT (pendHeadS (YKSemaphores s ptr)) (\<lambda>t. t\<lparr>prevT := newTCB\<rparr>) s) (\<lambda>s1.
          bindR (modT newTCB (\<lambda>t. t\<lparr>nextT := pendHeadS (YKSemaphores s1 ptr)\<rparr>) s1) (\<lambda>s2.
          bindR (modT newTCB (\<lambda>t. t\<lparr>prevT := None\<rparr>) s2) (\<lambda>s3.
          ok (modS ptr (\<lambda>m. m\<lparr>pendHeadS := newTCB\<rparr>) s3))))
        else insertPend_notHighest s (pendHeadS (YKSemaphores s ptr)) newTCB)))"

definition removePendSem :: "kstate \<Rightarrow> nat \<Rightarrow> (kstate \<times> tcbptr) result" where
  "removePendSem s ptr =
     (if pendHeadS (YKSemaphores s ptr) = None then ok (s, None)
      else
        (let tmp = pendHeadS (YKSemaphores s ptr) in
         bindR (getT s (pendHeadS (YKSemaphores s ptr))) (\<lambda>h.
         let s1 = modS ptr (\<lambda>m. m\<lparr>pendHeadS := nextT h\<rparr>) s in
         bindR (modT (pendHeadS (YKSemaphores s1 ptr)) (\<lambda>t. t\<lparr>prevT := None\<rparr>) s1) (\<lambda>s2.
         bindR (modT tmp (\<lambda>t. t\<lparr>nextT := None\<rparr>) s2) (\<lambda>s3.
         ok (s3, tmp))))))"

definition insertPendQ :: "kstate \<Rightarrow> tcbptr \<Rightarrow> nat \<Rightarrow> kstate result" where
  "insertPendQ s newTCB ptr =
     (if newTCB = None then ok (printString err_insertPendQ_null s)
      else if pendHeadQ (YKQueues s ptr) = None then
        modT newTCB (\<lambda>t. t\<lparr>prevT := None, nextT := None\<rparr>)
          (modQ ptr (\<lambda>q. q\<lparr>pendHeadQ := newTCB\<rparr>) s)
      else
        bindR (getT s newTCB) (\<lambda>n.
        bindR (getT s (pendHeadQ (YKQueues s ptr))) (\<lambda>h.
        if priority n < priority h then
          bindR (modT (pendHeadQ (YKQueues s ptr)) (\<lambda>t. t\<lparr>prevT := newTCB\<rparr>) s) (\<lambda>s1.
          bindR (modT newTCB (\<lambda>t. t\<lparr>nextT := pendHeadQ (YKQueues s1 ptr)\<rparr>) s1) (\<lambda>s2.
          bindR (modT newTCB (\<lambda>t. t\<lparr>prevT := None\<rparr>) s2) (\<lambda>s3.
          ok (modQ ptr (\<lambda>q. q\<lparr>pendHeadQ := newTCB\<rparr>) s3))))
        else insertPend_notHighest s (pendHeadQ (YKQueues s ptr)) newTCB)))"

definition removePendQ :: "kstate \<Rightarrow> nat \<Rightarrow> (kstate \<times> tcbptr) result" where
  "removePendQ s ptr =
     (if pendHeadQ (YKQueues s ptr) = None then ok (s, None)
      else
        (let tmp = pendHeadQ (YKQueues s ptr) in
         bindR (getT s (pendHeadQ (YKQueues s ptr))) (\<lambda>h.
         let s1 = modQ ptr (\<lambda>q. q\<lparr>pendHeadQ := nextT h\<rparr>) s in
         bindR (modT (pendHeadQ (YKQueues s1 ptr)) (\<lambda>t. t\<lparr>prevT := None\<rparr>) s1) (\<lambda>s2.
         bindR (modT tmp (\<lambda>t. t\<lparr>nextT := None\<rparr>) s2) (\<lambda>s3.
         ok (s3, tmp))))))"

subsection \<open>The allocators\<close>

text \<open>
  Each allocator prints its error when the pool is used up and hands out the next
  element all the same: the result is the index \<open>i\<close> of the pointer \<^verbatim>\<open>&pool[i]\<close>, in the
  pool or not.
\<close>

definition allocateTCB :: "kstate \<Rightarrow> kstate \<times> int" where
  "allocateTCB s =
     (let s1 = (if int MAX_TASKS + 1 \<le> sint (numTasksCreated s)
                then printString err_allocateTCB s else s)
      in (s1\<lparr>numTasksCreated := numTasksCreated s1 + 1\<rparr>, sint (numTasksCreated s1)))"

definition allocateSemaphore :: "kstate \<Rightarrow> kstate \<times> int" where
  "allocateSemaphore s =
     (let s1 = (if int MAX_SEMAPHORES \<le> sint (numSemaphoresCreated s)
                then printString err_allocateSemaphore s else s)
      in (s1\<lparr>numSemaphoresCreated := numSemaphoresCreated s1 + 1\<rparr>,
          sint (numSemaphoresCreated s1)))"

definition allocateQueue :: "kstate \<Rightarrow> kstate \<times> int" where
  "allocateQueue s =
     (let s1 = (if int MAX_QUEUES \<le> sint (numQueuesCreated s)
                then printString err_allocateQueue s else s)
      in (s1\<lparr>numQueuesCreated := numQueuesCreated s1 + 1\<rparr>, sint (numQueuesCreated s1)))"

section \<open>The scheduler (\<^verbatim>\<open>yak_c.c\<close>)\<close>

definition YKScheduler :: "kstate \<Rightarrow> kstate result" where
  "YKScheduler s =
     (case YKEnterMutex s of (iStatus, s1) \<Rightarrow>
        bindR (getT s1 (YKReadyHead s1)) (\<lambda>h.
        bindR (getT s1 (YKCurrentTask s1)) (\<lambda>c.
        ok (restoreMutex iStatus
             (if taskID h \<noteq> taskID c
              then YKDispatcher (s1\<lparr>YKCtxSwCount := YKCtxSwCount s1 + 1\<rparr>)
              else s1)))))"

definition YKEnterISR :: "kstate \<Rightarrow> kstate" where
  "YKEnterISR s = s\<lparr>YKInterruptNestLevel := YKInterruptNestLevel s + 1\<rparr>"

definition YKExitISR :: "kstate \<Rightarrow> kstate result" where
  "YKExitISR s =
     (let s1 = s\<lparr>YKInterruptNestLevel := YKInterruptNestLevel s - 1\<rparr>
      in if YKInterruptNestLevel s1 = 0 then YKScheduler s1 else ok s1)"

section \<open>The kernel functions (\<^verbatim>\<open>yak_c.c\<close>)\<close>

text \<open>
  A call of \<^verbatim>\<open>YKScheduler\<close> that dispatches another task comes back to its caller
  only when the caller's task is dispatched again. Where the statements after the call
  only restore the interrupt flag and return (\<^verbatim>\<open>YKSemPend\<close>, \<^verbatim>\<open>YKSemPost\<close>,
  \<^verbatim>\<open>YKQPost\<close>, \<^verbatim>\<open>YKNewTask\<close>), the model applies them at once. In \<^verbatim>\<open>YKQPend\<close> they
  take the message out of the queue, and in \<^verbatim>\<open>YKRun\<close> they print an error: there the
  model tells a call that was switched away from one that went on.
\<close>

subsection \<open>Tasks\<close>

text \<open>
  \<^verbatim>\<open>static TCBPtr dummyTask;\<close> in \<^verbatim>\<open>YKInitialize\<close>: a pointer with static storage,
  which C initialises to \<^verbatim>\<open>NULL\<close>, and to which nothing is ever assigned.
\<close>

definition dummyTask :: tcbptr where
  "dummyTask = None"

text \<open>
  Of the parameters of \<^verbatim>\<open>YKNewTask\<close> the model keeps the priority; the entry point and
  the stack are machine context.
\<close>

definition YKNewTask :: "kstate \<Rightarrow> 8 word \<Rightarrow> kstate result" where
  "YKNewTask s taskPriority =
     (case YKEnterMutex s of (iStatus, s1) \<Rightarrow>
      case allocateTCB s1 of (s2, i) \<Rightarrow>
        bindR (inPool (MAX_TASKS + 1) i) (\<lambda>n.
        let newTCBPtr = Some n in
        bindR (modT newTCBPtr
                 (\<lambda>t. t\<lparr>taskID := taskIDCount s2, delayCount := 0, priority := taskPriority,
                        nextT := None, prevT := None\<rparr>)
                 (s2\<lparr>taskIDCount := taskIDCount s2 + 1\<rparr>)) (\<lambda>s3.
        bindR (insertReady s3 newTCBPtr) (\<lambda>s4.
        let s5 = restoreMutex iStatus s4
        in if YKStartedFlag s5 \<noteq> 0 then YKScheduler s5 else ok s5))))"

definition YKInitialize :: "kstate \<Rightarrow> kstate result" where
  "YKInitialize s =
     (case YKEnterMutex s of (iStatus, s1) \<Rightarrow>
        bindR (YKNewTask s1 LOWEST_TASK_PRIORITY) (\<lambda>s2.
        bindR (modT dummyTask
                 (\<lambda>t. t\<lparr>taskID := - 1, delayCount := 0, priority := LOWEST_TASK_PRIORITY,
                        nextT := None, prevT := None\<rparr>) s2) (\<lambda>s3.
        ok (s3\<lparr>YKCurrentTask := dummyTask\<rparr>))))"

definition YKRun :: "kstate \<Rightarrow> kstate result" where
  "YKRun s =
     (let s1 = YKExitMutex (s\<lparr>YKStartedFlag := 1\<rparr>)
      in bindR (YKScheduler s1) (\<lambda>s2.
         if YKCurrentTask s2 \<noteq> YKCurrentTask s1 then ok s2
         else ok (printString err_YKRun s2)))"

definition YKDelayTask :: "kstate \<Rightarrow> 16 word \<Rightarrow> kstate result" where
  "YKDelayTask s count =
     (case YKEnterMutex s of (iStatus, s1) \<Rightarrow>
        let s2 = (if count \<le> 0 then printString err_YKDelayTask s1 else s1) in
        bindR (removeReady s2 (YKCurrentTask s2)) (\<lambda>s3.
        bindR (modT (YKCurrentTask s3) (\<lambda>t. t\<lparr>delayCount := count\<rparr>) s3) (\<lambda>s4.
        bindR (insertDelayed s4 (YKCurrentTask s4)) (\<lambda>s5.
        YKScheduler (restoreMutex iStatus s5)))))"

subsection \<open>Semaphores\<close>

definition YKSemCreate :: "kstate \<Rightarrow> 16 word \<Rightarrow> (kstate \<times> nat) result" where
  "YKSemCreate s initialValue =
     (case YKEnterMutex s of (iStatus, s1) \<Rightarrow>
      case allocateSemaphore s1 of (s2, i) \<Rightarrow>
        bindR (inPool MAX_SEMAPHORES i) (\<lambda>newSem.
        ok (restoreMutex iStatus
              (modS newSem (\<lambda>m. m\<lparr>valueS := initialValue, pendHeadS := None\<rparr>) s2),
            newSem)))"

definition YKSemPend :: "kstate \<Rightarrow> nat \<Rightarrow> kstate result" where
  "YKSemPend s semPtr =
     (case YKEnterMutex s of (iStatus, s1) \<Rightarrow>
        let oldVal = valueS (YKSemaphores s1 semPtr);
            s2 = modS semPtr (\<lambda>m. m\<lparr>valueS := valueS m - 1\<rparr>) s1
        in bindR (if sint oldVal \<le> 0 then
                    bindR (removeReady s2 (YKCurrentTask s2)) (\<lambda>s3.
                    bindR (insertPendSem s3 (YKCurrentTask s3) semPtr) (\<lambda>s4.
                    YKScheduler s4))
                  else ok s2) (\<lambda>s5.
           ok (restoreMutex iStatus s5)))"

definition YKSemPost :: "kstate \<Rightarrow> nat \<Rightarrow> kstate result" where
  "YKSemPost s semPtr =
     (case YKEnterMutex s of (iStatus, s1) \<Rightarrow>
        let oldVal = valueS (YKSemaphores s1 semPtr);
            s2 = modS semPtr (\<lambda>m. m\<lparr>valueS := valueS m + 1\<rparr>) s1
        in bindR (if sint oldVal < 0 then
                    bindR (removePendSem s2 semPtr) (\<lambda>(s3, tmp).
                    bindR (insertReady s3 tmp) (\<lambda>s4.
                    if YKInterruptNestLevel s4 = 0 then YKScheduler s4 else ok s4))
                  else ok s2) (\<lambda>s5.
           ok (restoreMutex iStatus s5)))"

subsection \<open>Message queues\<close>

definition YKQCreate :: "kstate \<Rightarrow> int \<Rightarrow> 16 word \<Rightarrow> (kstate \<times> nat) result" where
  "YKQCreate s base sizeQ =
     (case YKEnterMutex s of (iStatus, s1) \<Rightarrow>
      case allocateQueue s1 of (s2, i) \<Rightarrow>
        bindR (inPool MAX_QUEUES i) (\<lambda>newQ.
        ok (restoreMutex iStatus
              (modQ newQ (\<lambda>q. q\<lparr>numEntries := 0, maxEntries := sizeQ, startQ := base,
                                 endQ := base + uint (sizeQ - 1), nextSlot := base,
                                 nextMsg := base, pendHeadQ := None\<rparr>) s2),
            newQ)))"

text \<open>
  The second half of \<^verbatim>\<open>YKQPend\<close>, from \<^verbatim>\<open>msg = *(QPtr->nextMsg);\<close> to the return:
  the caller runs it at once when the queue holds a message, and otherwise when the
  task that was suspended in \<^verbatim>\<open>YKScheduler\<close> is dispatched again.
\<close>

definition YKQPend_take :: "kstate \<Rightarrow> nat \<Rightarrow> bool \<Rightarrow> kstate \<times> int" where
  "YKQPend_take s QPtr iStatus =
     (let msg = msgmem s (nextMsg (YKQueues s QPtr));
          s1 = modQ QPtr (\<lambda>q. q\<lparr>nextMsg := (if nextMsg q = endQ q then startQ q
                                              else nextMsg q + 1)\<rparr>) s;
          s2 = modQ QPtr (\<lambda>q. q\<lparr>numEntries := numEntries q - 1\<rparr>) s1
      in (restoreMutex iStatus s2, msg))"

text \<open>
  A call of \<^verbatim>\<open>YKQPend\<close> either returns a message, or leaves the caller suspended with
  the rest of the function (and its \<^verbatim>\<open>iStatus\<close>) still to run.
\<close>

datatype qpend = Message kstate int | Suspended kstate bool

definition YKQPend :: "kstate \<Rightarrow> nat \<Rightarrow> qpend result" where
  "YKQPend s QPtr =
     (case YKEnterMutex s of (iStatus, s1) \<Rightarrow>
        if numEntries (YKQueues s1 QPtr) = 0 then
          bindR (removeReady s1 (YKCurrentTask s1)) (\<lambda>s2.
          bindR (insertPendQ s2 (YKCurrentTask s2) QPtr) (\<lambda>s3.
          bindR (YKScheduler s3) (\<lambda>s4.
          if YKCurrentTask s4 \<noteq> YKCurrentTask s3 then ok (Suspended s4 iStatus)
          else (case YKQPend_take s4 QPtr iStatus of (s5, msg) \<Rightarrow> ok (Message s5 msg)))))
        else (case YKQPend_take s1 QPtr iStatus of (s5, msg) \<Rightarrow> ok (Message s5 msg)))"

definition YKQPost :: "kstate \<Rightarrow> nat \<Rightarrow> int \<Rightarrow> (kstate \<times> 16 word) result" where
  "YKQPost s QPtr msg =
     (case YKEnterMutex s of (iStatus, s1) \<Rightarrow>
        if maxEntries (YKQueues s1 QPtr) \<le> numEntries (YKQueues s1 QPtr)
        then ok (restoreMutex iStatus s1, 0)
        else
          (let s2 = s1\<lparr>msgmem := (msgmem s1)(nextSlot (YKQueues s1 QPtr) := msg)\<rparr>;
               s3 = modQ QPtr (\<lambda>q. q\<lparr>nextSlot := (if nextSlot q = endQ q then startQ q
                                                    else nextSlot q + 1)\<rparr>) s2;
               s4 = modQ QPtr (\<lambda>q. q\<lparr>numEntries := numEntries q + 1\<rparr>) s3
           in bindR (if pendHeadQ (YKQueues s4 QPtr) \<noteq> None then
                       bindR (removePendQ s4 QPtr) (\<lambda>(s5, tmp).
                       bindR (insertReady s5 tmp) (\<lambda>s6.
                       if YKInterruptNestLevel s6 = 0 then YKScheduler s6 else ok s6))
                     else ok s4) (\<lambda>s7.
              ok (restoreMutex iStatus s7, 1))))"

section \<open>The tick handler (\<^verbatim>\<open>handlers.c\<close>)\<close>

text \<open>
  The loop of \<^verbatim>\<open>YKTickHandler\<close>:
  \<^verbatim>\<open>while (tmp != NULL) { insertReady(tmp); tmp = removeDelayed(); }\<close>
\<close>

partial_function (option) YKTickHandler_loop :: "kstate \<Rightarrow> tcbptr \<Rightarrow> kstate result" where
  "YKTickHandler_loop s tmp =
     (if tmp \<noteq> None then
        (case insertReady s tmp of
           None \<Rightarrow> None
         | Some (Inl e) \<Rightarrow> Some (Inl e)
         | Some (Inr s1) \<Rightarrow>
             (case removeDelayed s1 of
                None \<Rightarrow> None
              | Some (Inl e) \<Rightarrow> Some (Inl e)
              | Some (Inr (s2, tmp2)) \<Rightarrow> YKTickHandler_loop s2 tmp2))
      else Some (Inr s))"

definition err_YKTickHandler :: string where
  "err_YKTickHandler = ''ERROR in YKTickHandler(): queue overflow!'' @ nl"

text \<open>The remainder of C's \<^verbatim>\<open>%\<close>, which has the sign of the dividend.\<close>

definition c_rem :: "int \<Rightarrow> int \<Rightarrow> int" where
  "c_rem a b = sgn a * (\<bar>a\<bar> mod \<bar>b\<bar>)"

text \<open>
  \<^verbatim>\<open>YKTickHandler\<close>: the tick count, the delayed list, and the message of the demo
  application, which is built in \<^verbatim>\<open>MsgArray[index]\<close> and posted to the queue
  \<^verbatim>\<open>MsgQPtr\<close>. The handler disables interrupts, without keeping the prior state, and
  enables them at its end. \<^verbatim>\<open>index\<close> and \<^verbatim>\<open>pseudoRand\<close> are its \<^verbatim>\<open>static int\<close>
  variables; a write to \<^verbatim>\<open>MsgArray[index]\<close> with \<^verbatim>\<open>index\<close> outside the array is the
  fault \<open>OutOfBounds\<close>, a post through a \<^verbatim>\<open>MsgQPtr\<close> that is \<^verbatim>\<open>NULL\<close> the fault
  \<open>NullDeref\<close>.
\<close>

definition YKTickHandler :: "16 word \<Rightarrow> kstate \<Rightarrow> kstate result" where
  "YKTickHandler MSGARRAYSIZE s =
     (case YKEnterMutex s of (iStatus, s1) \<Rightarrow>
        let s2 = s1\<lparr>YKTickNum := YKTickNum s1 + 1\<rparr>
        in bindR (if YKDelayedHead s2 \<noteq> None then
                    bindR (modT (YKDelayedHead s2)
                             (\<lambda>t. t\<lparr>delayCount := delayCount t - 1\<rparr>) s2) (\<lambda>s3.
                    bindR (removeDelayed s3) (\<lambda>(s4, tmp).
                    YKTickHandler_loop s4 tmp))
                  else ok s2) (\<lambda>s5.
           bindR (inPool (nat (sint MSGARRAYSIZE)) (sint (index s5))) (\<lambda>i.
           let s6 = s5\<lparr>MsgArray := (MsgArray s5)
                         (int i := (MsgArray s5 (int i))\<lparr>tick := YKTickNum s5\<rparr>)\<rparr>;
               s7 = s6\<lparr>pseudoRand := word_of_int (c_rem (sint (pseudoRand s6 + 89)) 100)\<rparr>;
               s8 = s7\<lparr>MsgArray := (MsgArray s7)
                         (int i := (MsgArray s7 (int i))\<lparr>data := pseudoRand s7\<rparr>)\<rparr>
           in case MsgQPtr s8 of
                None \<Rightarrow> fault NullDeref
              | Some q \<Rightarrow>
                  bindR (YKQPost s8 q (int i)) (\<lambda>(s9, r).
                  let s10 = (if r = 0 then printString err_YKTickHandler s9 else s9);
                      s11 = s10\<lparr>index := index s10 + 1\<rparr>;
                      s12 = (if sint MSGARRAYSIZE \<le> sint (index s11) then s11\<lparr>index := 0\<rparr>
                             else s11)
                  in ok (YKExitMutex s12)))))"

section \<open>Kernel calls, runs and observations\<close>

text \<open>
  The calls a task, an interrupt service routine or \<^verbatim>\<open>main\<close> makes, and the state each
  leaves behind. A \<open>QPend\<close> that suspends its caller is completed by \<open>QPendResume\<close>
  when the caller is dispatched again.
\<close>

datatype kcall =
    Initialize
  | NewTask "8 word"
  | Run
  | DelayTask "16 word"
  | SemCreate "16 word"
  | SemPend nat
  | SemPost nat
  | QCreate int "16 word"
  | QPend nat
  | QPendResume nat bool
  | QPost nat int
  | EnterISR
  | ExitISR
  | Scheduler
  | EnterMutex
  | ExitMutex
  | Tick "16 word"

definition qpend_state :: "qpend \<Rightarrow> kstate" where
  "qpend_state r = (case r of Message s m \<Rightarrow> s | Suspended s b \<Rightarrow> s)"

definition mapR :: "('a \<Rightarrow> 'b) \<Rightarrow> 'a result \<Rightarrow> 'b result" where
  "mapR f m = bindR m (\<lambda>x. ok (f x))"

fun kcall_run :: "kstate \<Rightarrow> kcall \<Rightarrow> kstate result" where
  "kcall_run s Initialize = YKInitialize s"
| "kcall_run s (NewTask p) = YKNewTask s p"
| "kcall_run s Run = YKRun s"
| "kcall_run s (DelayTask n) = YKDelayTask s n"
| "kcall_run s (SemCreate v) = mapR fst (YKSemCreate s v)"
| "kcall_run s (SemPend i) = YKSemPend s i"
| "kcall_run s (SemPost i) = YKSemPost s i"
| "kcall_run s (QCreate b n) = mapR fst (YKQCreate s b n)"
| "kcall_run s (QPend q) = mapR qpend_state (YKQPend s q)"
| "kcall_run s (QPendResume q iStatus) = ok (fst (YKQPend_take s q iStatus))"
| "kcall_run s (QPost q m) = mapR fst (YKQPost s q m)"
| "kcall_run s EnterISR = ok (YKEnterISR s)"
| "kcall_run s ExitISR = YKExitISR s"
| "kcall_run s Scheduler = YKScheduler s"
| "kcall_run s EnterMutex = ok (snd (YKEnterMutex s))"
| "kcall_run s ExitMutex = ok (YKExitMutex s)"
| "kcall_run s (Tick n) = YKTickHandler n s"

fun kcalls_run :: "kstate \<Rightarrow> kcall list \<Rightarrow> kstate result" where
  "kcalls_run s [] = ok s"
| "kcalls_run s (c # cs) =
     (case kcall_run s c of
        None \<Rightarrow> None
      | Some (Inl e) \<Rightarrow> Some (Inl e)
      | Some (Inr s1) \<Rightarrow> kcalls_run s1 cs)"

text \<open>
  The tasks of a list, read from a head along \<^verbatim>\<open>next\<close>; the walk stops after as many
  tasks as the pool \<^verbatim>\<open>YKTasks\<close> holds.
\<close>

fun chain :: "nat \<Rightarrow> (nat \<Rightarrow> TCB) \<Rightarrow> tcbptr \<Rightarrow> nat list" where
  "chain 0 ts p = []"
| "chain (Suc k) ts p = (case p of None \<Rightarrow> [] | Some i \<Rightarrow> i # chain k ts (nextT (ts i)))"

definition ready_list :: "kstate \<Rightarrow> nat list" where
  "ready_list s = chain (MAX_TASKS + 1) (YKTasks s) (YKReadyHead s)"

definition delayed_list :: "kstate \<Rightarrow> nat list" where
  "delayed_list s = chain (MAX_TASKS + 1) (YKTasks s) (YKDelayedHead s)"

definition delayed_deltas :: "kstate \<Rightarrow> 16 word list" where
  "delayed_deltas s = map (\<lambda>i. delayCount (YKTasks s i)) (delayed_list s)"

definition sem_pending :: "nat \<Rightarrow> kstate \<Rightarrow> nat list" where
  "sem_pending i s = chain (MAX_TASKS + 1) (YKTasks s) (pendHeadS (YKSemaphores s i))"

definition q_pending :: "nat \<Rightarrow> kstate \<Rightarrow> nat list" where
  "q_pending q s = chain (MAX_TASKS + 1) (YKTasks s) (pendHeadQ (YKQueues s q))"

definition occupancy :: "nat \<Rightarrow> kstate \<Rightarrow> 16 word" where
  "occupancy q s = numEntries (YKQueues s q)"

definition capacity :: "nat \<Rightarrow> kstate \<Rightarrow> 16 word" where
  "capacity q s = maxEntries (YKQueues s q)"

subsection \<open>States to run the kernel from\<close>

text \<open>Memory as C leaves it before \<^verbatim>\<open>main\<close>: all static storage zero, interrupts on.\<close>

definition tcb0 :: TCB where
  "tcb0 = \<lparr>taskID = 0, delayCount = 0, priority = 0, nextT = None, prevT = None\<rparr>"

definition sem0 :: YKSEM where
  "sem0 = \<lparr>valueS = 0, pendHeadS = None\<rparr>"

definition q0 :: YKQ where
  "q0 = \<lparr>numEntries = 0, maxEntries = 0, startQ = 0, endQ = 0, nextSlot = 0, nextMsg = 0,
          pendHeadQ = None\<rparr>"

definition boot :: kstate where
  "boot = \<lparr>YKCtxSwCount = 0, YKIdleCount = 0, YKTickNum = 0, YKInterruptNestLevel = 0,
     YKStartedFlag = 0, YKSemaphores = (\<lambda>i. sem0), YKQueues = (\<lambda>i. q0),
     YKTasks = (\<lambda>i. tcb0), YKCurrentTask = None, YKReadyHead = None, YKReadyTail = None,
     YKDelayedHead = None, YKDelayedTail = None, taskIDCount = 0, numTasksCreated = 0,
     numSemaphoresCreated = 0, numQueuesCreated = 0, msgmem = (\<lambda>a. 0), intEnabled = True,
     console = [], MsgQPtr = None, MsgArray = (\<lambda>i. \<lparr>tick = 0, data = 0\<rparr>), index = 0,
     pseudoRand = 0\<rparr>"

text \<open>
  A running kernel: the idle task (TCB 0, priority 100) and three tasks (TCBs 1, 2, 3
  with the priorities 10, 20, 30) are ready, task 1 runs, interrupts are on. Semaphore 0
  has the value 0 and queue 0 has the four slots 100 to 103; both are empty and nobody
  waits for them. Queue 0 is the queue of the tick handler's messages.
\<close>

definition running :: kstate where
  "running = boot\<lparr>
     YKStartedFlag := 1,
     YKSemaphores := (\<lambda>i. sem0),
     YKQueues := (\<lambda>i. q0)(0 := \<lparr>numEntries = 0, maxEntries = 4, startQ = 100, endQ = 103,
                                 nextSlot = 100, nextMsg = 100, pendHeadQ = None\<rparr>),
     YKTasks := (\<lambda>i. tcb0)
       (0 := \<lparr>taskID = 0, delayCount = 0, priority = 100, nextT = None, prevT = Some 3\<rparr>,
        1 := \<lparr>taskID = 1, delayCount = 0, priority = 10, nextT = Some 2, prevT = None\<rparr>,
        2 := \<lparr>taskID = 2, delayCount = 0, priority = 20, nextT = Some 3, prevT = Some 1\<rparr>,
        3 := \<lparr>taskID = 3, delayCount = 0, priority = 30, nextT = Some 0, prevT = Some 2\<rparr>),
     YKCurrentTask := Some 1, YKReadyHead := Some 1, YKReadyTail := Some 0,
     taskIDCount := 4, numTasksCreated := 4, numSemaphoresCreated := 1,
     numQueuesCreated := 1, MsgQPtr := Some 0\<rparr>"

definition sem_value :: "nat \<Rightarrow> kstate \<Rightarrow> 16 word" where
  "sem_value i s = valueS (YKSemaphores s i)"

text \<open>
  The tick handler in the middle of a tick: task 1 is alone in the delayed list and its
  delay has just reached 0; task 2 runs.
\<close>

definition one_expired :: kstate where
  "one_expired = running\<lparr>
     YKCtxSwCount := 1, YKTickNum := 1, YKInterruptNestLevel := 1,
     YKTasks := (YKTasks running)
       (1 := \<lparr>taskID = 1, delayCount = 0, priority = 10, nextT = None, prevT = None\<rparr>,
        2 := \<lparr>taskID = 2, delayCount = 0, priority = 20, nextT = Some 3, prevT = None\<rparr>),
     YKCurrentTask := Some 2, YKReadyHead := Some 2,
     YKDelayedHead := Some 1, YKDelayedTail := Some 1, intEnabled := False\<rparr>"

text \<open>
  Between the states \<open>s\<close> and \<open>s'\<close> the message slots and, of every queue, all but the
  pending list have stayed as they were.
\<close>

definition qkept :: "kstate \<Rightarrow> kstate \<Rightarrow> bool" where
  "qkept s s' \<longleftrightarrow>
     msgmem s' = msgmem s \<and>
     (\<forall>i. numEntries (YKQueues s' i) = numEntries (YKQueues s i) \<and>
          maxEntries (YKQueues s' i) = maxEntries (YKQueues s i) \<and>
          startQ (YKQueues s' i) = startQ (YKQueues s i) \<and>
          endQ (YKQueues s' i) = endQ (YKQueues s i) \<and>
          nextSlot (YKQueues s' i) = nextSlot (YKQueues s i) \<and>
          nextMsg (YKQueues s' i) = nextMsg (YKQueues s i))"

text \<open>Task 3 is the current task while task 1 heads the ready list.\<close>

definition preempted :: kstate where
  "preempted = running\<lparr>YKCurrentTask := Some 3\<rparr>"

text \<open>Queue 0 with two slots, both taken.\<close>

definition full2 :: kstate where
  "full2 = running\<lparr>
     YKQueues := (YKQueues running)
       (0 := \<lparr>numEntries = 2, maxEntries = 2, startQ = 100, endQ = 101, nextSlot = 100,
              nextMsg = 100, pendHeadQ = None\<rparr>),
     msgmem := (\<lambda>a. 0)(100 := 11, 101 := 22)\<rparr>"

text \<open>
  The message \<open>m\<close> has been placed in queue \<open>q\<close> between the states \<open>s\<close> and \<open>s'\<close>: it
  stands in the slot that was the next free one, the occupancy has grown by one and
  the next free slot has moved on, circularly.
\<close>

definition placed :: "kstate \<Rightarrow> nat \<Rightarrow> int \<Rightarrow> kstate \<Rightarrow> bool" where
  "placed s q m s' \<longleftrightarrow>
     msgmem s' = (msgmem s)(nextSlot (YKQueues s q) := m) \<and>
     numEntries (YKQueues s' q) = numEntries (YKQueues s q) + 1 \<and>
     nextSlot (YKQueues s' q) =
       (if nextSlot (YKQueues s q) = endQ (YKQueues s q) then startQ (YKQueues s q)
        else nextSlot (YKQueues s q) + 1)"

text \<open>The state after \<^verbatim>\<open>YKQCreate\<close> has made a first queue of four slots at address 100.\<close>

definition created :: kstate where
  "created = (case YKQCreate boot 100 4 of Some (Inr (s, q)) \<Rightarrow> s | _ \<Rightarrow> boot)"


text \<open>The occupancy of every queue is at most its capacity.\<close>

definition occupancy_bounded :: "kstate \<Rightarrow> bool" where
  "occupancy_bounded s \<longleftrightarrow> (\<forall>q. numEntries (YKQueues s q) \<le> maxEntries (YKQueues s q))"

text \<open>
  The call takes a message out of an empty queue: a \<^verbatim>\<open>YKQPend\<close> on an empty queue
  whose caller is not switched away and runs on, or the completion of a suspended
  \<^verbatim>\<open>YKQPend\<close> at a moment when the queue is empty.
\<close>

definition takes_from_empty :: "kstate \<Rightarrow> kcall \<Rightarrow> bool" where
  "takes_from_empty s c =
     (case c of
        QPendResume q b \<Rightarrow> numEntries (YKQueues s q) = 0
      | QPend q \<Rightarrow>
          numEntries (YKQueues s q) = 0 \<and>
          (case YKQPend s q of Some (Inr (Message s1 m)) \<Rightarrow> True | _ \<Rightarrow> False)
      | _ \<Rightarrow> False)"

section \<open>Rules for running the model\<close>

lemma bindR_simps [simp]:
  "bindR None f = None"
  "bindR (Some (Inl e)) f = Some (Inl e)"
  "bindR (Some (Inr x)) f = f x"
  by (simp_all add: bindR_def)

lemma bindR_cong_weak: "m = m' \<Longrightarrow> bindR m f = bindR m' f"
  by simp

lemma bindR_okE:
  assumes "bindR m f = Some (Inr y)"
  obtains x where "m = Some (Inr x)" and "f x = Some (Inr y)"
  using assms by (auto simp: bindR_def split: option.splits sum.splits)

lemma getT_simps [simp]:
  "getT s None = Some (Inl NullDeref)"
  "getT s (Some i) = Some (Inr (YKTasks s i))"
  by (simp_all add: getT_def ok_def fault_def)

lemma modT_simps [simp]:
  "modT None f s = Some (Inl NullDeref)"
  "modT (Some i) f s = Some (Inr (s\<lparr>YKTasks := (YKTasks s)(i := f (YKTasks s i))\<rparr>))"
  by (simp_all add: modT_def ok_def fault_def)


lemma modT_okD:
  "modT p f s = Some (Inr s') \<Longrightarrow>
     \<exists>i. p = Some i \<and> s' = s\<lparr>YKTasks := (YKTasks s)(i := f (YKTasks s i))\<rparr>"
  by (cases p) auto

lemma mapR_simps [simp]:
  "mapR f None = None"
  "mapR f (Some (Inl e)) = Some (Inl e)"
  "mapR f (Some (Inr x)) = Some (Inr (f x))"
  by (simp_all add: mapR_def ok_def)

lemma mapR_okD: "mapR f m = Some (Inr y) \<Longrightarrow> \<exists>x. m = Some (Inr x) \<and> y = f x"
  by (auto simp: mapR_def ok_def elim!: bindR_okE)

lemma chain_unfold:
  "chain n ts p =
     (if n = 0 then []
      else case p of None \<Rightarrow> [] | Some i \<Rightarrow> i # chain (n - 1) ts (nextT (ts i)))"
  by (cases n) (auto split: option.split)

lemma restoreMutex_EnterMutex [simp]:
  "restoreMutex (fst (YKEnterMutex s)) (snd (YKEnterMutex s)) = s"
  by (cases "intEnabled s") (simp_all add: restoreMutex_def YKEnterMutex_def YKExitMutex_def)

text \<open>The definitions that a run of the model on a given state unfolds.\<close>

lemmas kernel_defs =
  YKInitialize_def YKNewTask_def YKRun_def YKDelayTask_def YKSemCreate_def
  YKSemPend_def YKSemPost_def YKQCreate_def YKQPend_def YKQPend_take_def YKQPost_def
  YKEnterISR_def YKExitISR_def YKScheduler_def YKEnterMutex_def YKExitMutex_def
  YKDispatcher_def restoreMutex_def YKTickHandler_def inPool_def c_rem_def
  insertReady_def removeReady_def insertDelayed_def removeDelayed_def
  insertPendSem_def insertPendQ_def insertPend_notHighest_def removePendSem_def
  removePendQ_def allocateTCB_def allocateSemaphore_def allocateQueue_def modS_def modQ_def
  printString_def dummyTask_def IDLE_TASK_ID_def MAX_TASKS_def MAX_SEMAPHORES_def
  MAX_QUEUES_def LOWEST_TASK_PRIORITY_def qpend_state_def Let_def ok_def fault_def
  insertReady_loop.simps insertDelayed_loop.simps insertPend_loop.simps
  YKTickHandler_loop.simps

lemmas state_defs = running_def boot_def tcb0_def sem0_def q0_def

lemmas observer_defs =
  sem_value_def
  ready_list_def delayed_list_def delayed_deltas_def sem_pending_def q_pending_def
  occupancy_def capacity_def chain_unfold

section \<open>What the list functions leave alone\<close>

text \<open>
  The functions on the ready list, the delayed list and the pending list of a
  semaphore change TCBs, list heads and the console; the queues and the message slots
  stay as they are.
\<close>

lemma insertReady_keeps:
  "insertReady s p = Some (Inr s') \<Longrightarrow> YKQueues s' = YKQueues s \<and> msgmem s' = msgmem s"
  unfolding insertReady_def
  by (auto simp: ok_def printString_def split: if_splits elim!: bindR_okE dest!: modT_okD)

lemma removeReady_keeps:
  "removeReady s p = Some (Inr s') \<Longrightarrow> YKQueues s' = YKQueues s \<and> msgmem s' = msgmem s"
  unfolding removeReady_def
  by (auto simp: ok_def printString_def split: if_splits elim!: bindR_okE dest!: modT_okD)

lemma insertDelayed_loop_keeps_aux:
  assumes "insertDelayed_loop s c n = Some r"
  shows "\<forall>s' c'. r = Inr (s', c') \<longrightarrow> YKQueues s' = YKQueues s \<and> msgmem s' = msgmem s"
  by (rule insertDelayed_loop.raw_induct [OF _ assms])
     (fastforce simp: Let_def split: option.splits if_splits)

lemma insertDelayed_loop_keeps:
  "insertDelayed_loop s c n = Some (Inr (s', c')) \<Longrightarrow>
     YKQueues s' = YKQueues s \<and> msgmem s' = msgmem s"
  using insertDelayed_loop_keeps_aux by blast

lemma insertDelayed_keeps:
  "insertDelayed s p = Some (Inr s') \<Longrightarrow> YKQueues s' = YKQueues s \<and> msgmem s' = msgmem s"
  unfolding insertDelayed_def
  by (auto simp: ok_def printString_def split: if_splits
           elim!: bindR_okE dest!: modT_okD insertDelayed_loop_keeps)

lemma removeDelayed_keeps:
  "removeDelayed s = Some (Inr (s', p)) \<Longrightarrow> YKQueues s' = YKQueues s \<and> msgmem s' = msgmem s"
  unfolding removeDelayed_def
  by (auto simp: ok_def Let_def split: if_splits elim!: bindR_okE dest!: modT_okD)

lemma insertPend_notHighest_keeps:
  "insertPend_notHighest s h p = Some (Inr s') \<Longrightarrow>
     YKQueues s' = YKQueues s \<and> msgmem s' = msgmem s"
  unfolding insertPend_notHighest_def
  by (auto simp: ok_def split: if_splits elim!: bindR_okE dest!: modT_okD)

lemma insertPendSem_keeps:
  "insertPendSem s p i = Some (Inr s') \<Longrightarrow> YKQueues s' = YKQueues s \<and> msgmem s' = msgmem s"
  unfolding insertPendSem_def
  by (auto simp: ok_def printString_def modS_def split: if_splits
           elim!: bindR_okE dest!: modT_okD insertPend_notHighest_keeps)

lemma removePendSem_keeps:
  "removePendSem s i = Some (Inr (s', p)) \<Longrightarrow>
     YKQueues s' = YKQueues s \<and> msgmem s' = msgmem s"
  unfolding removePendSem_def
  by (auto simp: ok_def Let_def modS_def split: if_splits elim!: bindR_okE dest!: modT_okD)

lemma YKScheduler_keeps:
  "YKScheduler s = Some (Inr s') \<Longrightarrow> YKQueues s' = YKQueues s \<and> msgmem s' = msgmem s"
  unfolding YKScheduler_def
  by (auto simp: ok_def YKEnterMutex_def YKExitMutex_def restoreMutex_def YKDispatcher_def
           split: if_splits elim!: bindR_okE)

text \<open>
  The functions on the pending list of a queue change, of the queues, the
  \<^verbatim>\<open>pendHead\<close> of that queue.
\<close>

lemma insertPendQ_keeps: "insertPendQ s p q = Some (Inr s') \<Longrightarrow> qkept s s'"
  unfolding insertPendQ_def
  by (auto simp: ok_def printString_def modQ_def qkept_def split: if_splits
           elim!: bindR_okE dest!: modT_okD insertPend_notHighest_keeps)

lemma removePendQ_keeps: "removePendQ s q = Some (Inr (s', p)) \<Longrightarrow> qkept s s'"
  unfolding removePendQ_def
  by (auto simp: ok_def Let_def modQ_def qkept_def split: if_splits
           elim!: bindR_okE dest!: modT_okD)

lemma qkept_same: "YKQueues s' = YKQueues s \<and> msgmem s' = msgmem s \<Longrightarrow> qkept s s'"
  by (simp add: qkept_def)

lemma qkept_refl [simp]: "qkept s s"
  by (simp add: qkept_def)

lemma qkept_trans: "qkept s s1 \<Longrightarrow> qkept s1 s2 \<Longrightarrow> qkept s s2"
  by (simp add: qkept_def)

section \<open>Runs that end in a fault\<close>

text \<open>
  Claim C9. \<^verbatim>\<open>YKInitialize\<close> is to set up a dummy task as the current task, distinct
  from every real task, so that the first scheduling decision is a context switch. In
  the code \<^verbatim>\<open>dummyTask\<close> is a pointer that is never given a TCB: after the idle task
  is created, the assignment \<^verbatim>\<open>dummyTask->sp = NULL\<close> and those after it write
  through \<^verbatim>\<open>NULL\<close>, and \<^verbatim>\<open>YKCurrentTask\<close> would be \<^verbatim>\<open>NULL\<close>. Started on the memory
  that C hands to \<^verbatim>\<open>main\<close>, the function ends in the fault.
\<close>

theorem YKInitialize_faults:
  "YKInitialize boot = fault NullDeref"
  by (simp add: kernel_defs state_defs cong: bindR_cong_weak)

lemma YKInitialize_never_returns: "YKInitialize s \<noteq> Some (Inr s')"
  by (auto simp: YKInitialize_def dummyTask_def split: prod.splits elim!: bindR_okE)

text \<open>
  Claim C1. Task 1 pends on semaphore 0, whose value is 0, and is suspended as the only
  task on the pending list; the value is then \<open>-1\<close>. An interrupt service routine
  posts the semaphore. The task should move to the ready list and the value end at 0.
  In the code \<^verbatim>\<open>removePendSem\<close> sets \<^verbatim>\<open>ptr->pendHead\<close> to the \<^verbatim>\<open>next\<close> of the only
  pending task, which is \<^verbatim>\<open>NULL\<close>, and then assigns \<^verbatim>\<open>ptr->pendHead->prev = NULL\<close>.
\<close>

theorem sem_handoff_single_pender_faults:
  "mapR (sem_pending 0) (kcalls_run running [SemPend 0]) = ok [1] \<and>
   mapR (sem_value 0) (kcalls_run running [SemPend 0]) = ok (- 1) \<and>
   mapR ready_list (kcalls_run running [SemPend 0]) = ok [2, 3, 0] \<and>
   kcalls_run running [SemPend 0, EnterISR, SemPost 0] = fault NullDeref"
  by (simp add: kernel_defs state_defs observer_defs cong: bindR_cong_weak)

lemma removePendSem_last:
  "pendHeadS (YKSemaphores s i) = Some h \<Longrightarrow> nextT (YKTasks s h) = None \<Longrightarrow>
     removePendSem s i = fault NullDeref"
  by (simp add: removePendSem_def modS_def Let_def fault_def)

lemma removePendQ_last:
  "pendHeadQ (YKQueues s q) = Some h \<Longrightarrow> nextT (YKTasks s h) = None \<Longrightarrow>
     removePendQ s q = fault NullDeref"
  by (simp add: removePendQ_def modQ_def Let_def fault_def)

text \<open>
  Claim C2. Tasks 1, 2 and 3 call \<^verbatim>\<open>YKDelayTask\<close> with 10, 7 and 15 ticks. After the
  first two calls the delayed list holds the deltas 7 and 3; the third should make
  them 7, 3 and 5. In the code the loop of \<^verbatim>\<open>insertDelayed\<close> walks past the last task
  of the list and then reads \<^verbatim>\<open>curTCB->delayCount\<close> with \<^verbatim>\<open>curTCB\<close> equal to \<^verbatim>\<open>NULL\<close>,
  before its test \<^verbatim>\<open>curTCB != NULL\<close>.
\<close>

theorem delay_10_7_15_faults:
  "mapR delayed_deltas (kcalls_run running [DelayTask 10, DelayTask 7]) = ok [7, 3] \<and>
   kcalls_run running [DelayTask 10, DelayTask 7, DelayTask 15] = fault NullDeref"
  by (simp add: kernel_defs state_defs observer_defs cong: bindR_cong_weak)

lemma insertDelayed_loop_at_end:
  "insertDelayed_loop s None (Some n) = fault NullDeref"
  by (simp add: insertDelayed_loop.simps fault_def)

text \<open>
  Claim C5. \<^verbatim>\<open>YKDelayTask(0)\<close> should report an error and do nothing else. The code
  prints the error and goes on: the running task 1 leaves the ready list and enters the
  delayed list with the delay 0. The next tick makes the delay \<open>-1\<close>, and the task
  stays delayed.
\<close>

theorem delay_zero_not_skipped:
  "ready_list running = [1, 2, 3, 0] \<and> delayed_list running = [] \<and>
   mapR console (kcalls_run running [DelayTask 0]) = ok [err_YKDelayTask] \<and>
   mapR ready_list (kcalls_run running [DelayTask 0]) = ok [2, 3, 0] \<and>
   mapR delayed_list (kcalls_run running [DelayTask 0]) = ok [1] \<and>
   mapR delayed_deltas (kcalls_run running [DelayTask 0]) = ok [0] \<and>
   mapR delayed_deltas (kcalls_run running [DelayTask 0, EnterISR, Tick 20]) = ok [- 1] \<and>
   mapR ready_list (kcalls_run running [DelayTask 0, EnterISR, Tick 20]) = ok [2, 3, 0]"
  by (simp add: kernel_defs state_defs observer_defs cong: bindR_cong_weak)

text \<open>
  Claim C7. In the state \<open>one_expired\<close> the delayed list holds task 1 alone, with the
  delta 0. \<^verbatim>\<open>removeDelayed\<close> should unlink and return it and leave the list empty. In
  the code \<^verbatim>\<open>YKDelayedHead\<close> becomes \<^verbatim>\<open>NULL\<close> and the next statement is
  \<^verbatim>\<open>YKDelayedHead->prev = NULL\<close>. The tick handler reaches this state one tick after
  \<^verbatim>\<open>YKDelayTask(1)\<close>.
\<close>

theorem removeDelayed_last_faults:
  "delayed_list one_expired = [1] \<and> delayed_deltas one_expired = [0] \<and>
   removeDelayed one_expired = fault NullDeref \<and>
   kcalls_run running [DelayTask 1, EnterISR, Tick 20] = fault NullDeref"
  by (simp add: kernel_defs state_defs one_expired_def observer_defs cong: bindR_cong_weak)

lemma one_expired_reached:
  "bindR (kcalls_run running [DelayTask 1, EnterISR])
     (\<lambda>s. modT (YKDelayedHead s) (\<lambda>t. t\<lparr>delayCount := delayCount t - 1\<rparr>)
            ((snd (YKEnterMutex s))\<lparr>YKTickNum := YKTickNum s + 1\<rparr>)) = ok one_expired"
  apply (simp add: kernel_defs state_defs one_expired_def cong: bindR_cong_weak)
  apply (auto simp: fun_eq_iff)
  done

lemma removeDelayed_last:
  "YKDelayedHead s = Some h \<Longrightarrow> delayCount (YKTasks s h) = 0 \<Longrightarrow> nextT (YKTasks s h) = None
     \<Longrightarrow> removeDelayed s = fault NullDeref"
  by (simp add: removeDelayed_def Let_def fault_def)

section \<open>The scheduler\<close>

text \<open>
  Claim C10. A call of \<^verbatim>\<open>YKScheduler\<close> that returns leaves the ready list and the
  delayed list (their heads, tails and every TCB), the semaphores, the queues with
  their message slots and the tick counter as they were. Either it changes nothing at
  all, or the head of the ready list is not the current task and the call has added
  one to the context-switch counter and made the head of the ready list the current
  task; nothing else changes.
\<close>

theorem YKScheduler_frame:
  assumes "YKScheduler s = ok s'"
  shows "YKReadyHead s' = YKReadyHead s \<and> YKReadyTail s' = YKReadyTail s \<and>
         YKDelayedHead s' = YKDelayedHead s \<and> YKDelayedTail s' = YKDelayedTail s \<and>
         YKTasks s' = YKTasks s \<and> YKSemaphores s' = YKSemaphores s \<and>
         YKQueues s' = YKQueues s \<and> msgmem s' = msgmem s \<and> YKTickNum s' = YKTickNum s \<and>
         (s' = s \<or>
          YKReadyHead s \<noteq> YKCurrentTask s \<and>
          s' = s\<lparr>YKCtxSwCount := YKCtxSwCount s + 1, YKCurrentTask := YKReadyHead s\<rparr>)"
proof -
  obtain h c where h: "YKReadyHead s = Some h" and c: "YKCurrentTask s = Some c"
    using assms
    by (cases "YKReadyHead s"; cases "YKCurrentTask s")
       (auto simp: YKScheduler_def YKEnterMutex_def ok_def)
  let ?t = "s\<lparr>YKCtxSwCount := YKCtxSwCount s + 1, YKCurrentTask := YKReadyHead s\<rparr>"
  have eq: "s' = (if taskID (YKTasks s h) \<noteq> taskID (YKTasks s c) then ?t else s)"
    using assms h c
    by (cases "intEnabled s")
       (auto simp: YKScheduler_def YKEnterMutex_def YKExitMutex_def YKDispatcher_def
                   restoreMutex_def ok_def)
  have "taskID (YKTasks s h) \<noteq> taskID (YKTasks s c) \<Longrightarrow> YKReadyHead s \<noteq> YKCurrentTask s"
    using h c by auto
  with eq show ?thesis
    by (cases "taskID (YKTasks s h) \<noteq> taskID (YKTasks s c)") simp_all
qed

theorem YKScheduler_frame_witness:
  "YKScheduler preempted = ok (preempted\<lparr>YKCtxSwCount := 1, YKCurrentTask := Some 1\<rparr>) \<and>
   YKReadyHead preempted \<noteq> YKCurrentTask preempted \<and>
   YKTasks (preempted\<lparr>YKCtxSwCount := 1, YKCurrentTask := Some 1\<rparr>) = YKTasks preempted \<and>
   YKQueues (preempted\<lparr>YKCtxSwCount := 1, YKCurrentTask := Some 1\<rparr>) = YKQueues preempted \<and>
   YKScheduler running = ok running"
proof -
  have r1: "YKScheduler preempted = ok (preempted\<lparr>YKCtxSwCount := 1, YKCurrentTask := Some 1\<rparr>)"
    by (simp add: kernel_defs state_defs preempted_def cong: bindR_cong_weak)
  have r2: "YKScheduler running = ok running"
    by (simp add: kernel_defs state_defs cong: bindR_cong_weak)
  show ?thesis
    using YKScheduler_frame [OF r1] YKScheduler_frame [OF r2] r1 r2
    by (simp add: preempted_def running_def)
qed

lemma YKScheduler_returns:
  "YKReadyHead s = Some h \<Longrightarrow> YKCurrentTask s = Some c \<Longrightarrow> \<exists>s'. YKScheduler s = ok s'"
  by (simp add: YKScheduler_def YKEnterMutex_def ok_def)

section \<open>Posting to a queue\<close>

lemma YKQPost_full:
  "maxEntries (YKQueues s q) \<le> numEntries (YKQueues s q) \<Longrightarrow> YKQPost s q m = ok (s, 0)"
  by (cases "intEnabled s")
     (simp_all add: YKQPost_def YKEnterMutex_def YKExitMutex_def restoreMutex_def ok_def)

lemma YKQPost_place:
  assumes "pendHeadQ (YKQueues s q) = None"
    and "numEntries (YKQueues s q) < maxEntries (YKQueues s q)"
  shows "YKQPost s q m =
     ok (s\<lparr>YKQueues := (YKQueues s)
             (q := (YKQueues s q)\<lparr>
                nextSlot := (if nextSlot (YKQueues s q) = endQ (YKQueues s q)
                             then startQ (YKQueues s q) else nextSlot (YKQueues s q) + 1),
                numEntries := numEntries (YKQueues s q) + 1\<rparr>),
           msgmem := (msgmem s)(nextSlot (YKQueues s q) := m)\<rparr>, 1)"
  using assms
  by (cases "intEnabled s")
     (simp_all add: YKQPost_def YKEnterMutex_def YKExitMutex_def restoreMutex_def modQ_def
                    Let_def ok_def not_le [symmetric])

lemma YKQPost_result:
  assumes "YKQPost s q m = Some (Inr (s', r))"
  shows "r = 0 \<and> s' = s \<and> maxEntries (YKQueues s q) \<le> numEntries (YKQueues s q) \<or>
         r = 1 \<and> numEntries (YKQueues s q) < maxEntries (YKQueues s q) \<and>
         qkept (s\<lparr>YKQueues := (YKQueues s)
                    (q := (YKQueues s q)\<lparr>
                       nextSlot := (if nextSlot (YKQueues s q) = endQ (YKQueues s q)
                                    then startQ (YKQueues s q)
                                    else nextSlot (YKQueues s q) + 1),
                       numEntries := numEntries (YKQueues s q) + 1\<rparr>),
                  msgmem := (msgmem s)(nextSlot (YKQueues s q) := m)\<rparr>) s'"
proof (cases "maxEntries (YKQueues s q) \<le> numEntries (YKQueues s q)")
  case True
  with assms show ?thesis
    by (simp add: YKQPost_full ok_def)
next
  case False
  define s4 where "s4 = (snd (YKEnterMutex s))\<lparr>
      msgmem := (msgmem s)(nextSlot (YKQueues s q) := m),
      YKQueues := (YKQueues s)
        (q := (YKQueues s q)\<lparr>
           nextSlot := (if nextSlot (YKQueues s q) = endQ (YKQueues s q)
                        then startQ (YKQueues s q) else nextSlot (YKQueues s q) + 1),
           numEntries := numEntries (YKQueues s q) + 1\<rparr>)\<rparr>"
  have unf: "YKQPost s q m =
      bindR (if pendHeadQ (YKQueues s4 q) \<noteq> None then
               bindR (removePendQ s4 q) (\<lambda>(s5, tmp).
               bindR (insertReady s5 tmp) (\<lambda>s6.
               if YKInterruptNestLevel s6 = 0 then YKScheduler s6 else ok s6))
             else ok s4) (\<lambda>s7.
      ok (restoreMutex (intEnabled s) s7, 1))"
    using False
    by (simp add: YKQPost_def YKEnterMutex_def modQ_def Let_def s4_def)
  from assms [unfolded unf] obtain s7
    where s7: "(if pendHeadQ (YKQueues s4 q) \<noteq> None then
               bindR (removePendQ s4 q) (\<lambda>(s5, tmp).
               bindR (insertReady s5 tmp) (\<lambda>s6.
               if YKInterruptNestLevel s6 = 0 then YKScheduler s6 else ok s6))
             else ok s4) = Some (Inr s7)"
      and fin: "s' = restoreMutex (intEnabled s) s7" "r = 1"
    by (auto simp: ok_def elim!: bindR_okE)
  have "qkept s4 s7"
  proof (cases "pendHeadQ (YKQueues s4 q) \<noteq> None")
    case True
    with s7 obtain s5 tmp s6 where a: "removePendQ s4 q = Some (Inr (s5, tmp))"
      and b: "insertReady s5 tmp = Some (Inr s6)"
      and c: "(if YKInterruptNestLevel s6 = 0 then YKScheduler s6 else ok s6) = Some (Inr s7)"
      by (auto elim!: bindR_okE)
    from c have "qkept s6 s7"
      by (auto simp: ok_def split: if_splits dest!: YKScheduler_keeps intro: qkept_same)
    with a b show ?thesis
      by (blast intro: qkept_trans qkept_same dest: removePendQ_keeps insertReady_keeps)
  next
    case False
    with s7 show ?thesis
      by (simp add: ok_def)
  qed
  then have "qkept s4 s'"
    using fin by (simp add: qkept_def restoreMutex_def YKExitMutex_def)
  then have "qkept (s\<lparr>YKQueues := (YKQueues s)
                    (q := (YKQueues s q)\<lparr>
                       nextSlot := (if nextSlot (YKQueues s q) = endQ (YKQueues s q)
                                    then startQ (YKQueues s q)
                                    else nextSlot (YKQueues s q) + 1),
                       numEntries := numEntries (YKQueues s q) + 1\<rparr>),
                  msgmem := (msgmem s)(nextSlot (YKQueues s q) := m)\<rparr>) s'"
    by (simp add: qkept_def s4_def YKEnterMutex_def)
  with fin False show ?thesis
    by (simp add: not_le)
qed

text \<open>
  Claim C4. When the occupancy of a queue has reached its capacity, \<^verbatim>\<open>YKQPost\<close>
  returns 0 and leaves the whole state, and with it the queue, as it was. When
  \<^verbatim>\<open>YKQPost\<close> returns, it returns 0 or 1, and it returns 1 exactly when it has placed
  the message in the queue.
\<close>

theorem YKQPost_full_or_placed:
  "(maxEntries (YKQueues s q) \<le> numEntries (YKQueues s q) \<longrightarrow> YKQPost s q m = ok (s, 0)) \<and>
   (YKQPost s q m = ok (s', r) \<longrightarrow>
      (r = 0 \<or> r = 1) \<and> (r = 1 \<longleftrightarrow> placed s q m s') \<and> (r = 0 \<longrightarrow> s' = s))"
proof (intro conjI impI)
  assume "maxEntries (YKQueues s q) \<le> numEntries (YKQueues s q)"
  then show "YKQPost s q m = ok (s, 0)"
    by (rule YKQPost_full)
next
  assume "YKQPost s q m = ok (s', r)"
  then have r: "YKQPost s q m = Some (Inr (s', r))"
    by (simp add: ok_def)
  note res = YKQPost_result [OF r]
  show "r = 0 \<or> r = 1"
    using res by blast
  show "r = 1 \<longleftrightarrow> placed s q m s'"
  proof
    assume "r = 1"
    with res show "placed s q m s'"
      by (auto simp: placed_def qkept_def)
  next
    assume "placed s q m s'"
    then have "numEntries (YKQueues s' q) = numEntries (YKQueues s q) + 1"
      by (simp add: placed_def)
    with res show "r = 1"
      by auto
  qed
  show "s' = s" if "r = 0"
    using res that by auto
qed

theorem YKQPost_full_or_placed_witness:
  "maxEntries (YKQueues full2 0) \<le> numEntries (YKQueues full2 0) \<and>
   YKQPost full2 0 33 = ok (full2, 0) \<and>
   YKQPost running 0 11 = ok (running\<lparr>
      YKQueues := (YKQueues running)
        (0 := \<lparr>numEntries = 1, maxEntries = 4, startQ = 100, endQ = 103, nextSlot = 101,
               nextMsg = 100, pendHeadQ = None\<rparr>),
      msgmem := (\<lambda>a. 0)(100 := 11)\<rparr>, 1) \<and>
   placed running 0 11 (running\<lparr>
      YKQueues := (YKQueues running)
        (0 := \<lparr>numEntries = 1, maxEntries = 4, startQ = 100, endQ = 103, nextSlot = 101,
               nextMsg = 100, pendHeadQ = None\<rparr>),
      msgmem := (\<lambda>a. 0)(100 := 11)\<rparr>)"
proof -
  let ?s1 = "running\<lparr>
      YKQueues := (YKQueues running)
        (0 := \<lparr>numEntries = 1, maxEntries = 4, startQ = 100, endQ = 103, nextSlot = 101,
               nextMsg = 100, pendHeadQ = None\<rparr>),
      msgmem := (\<lambda>a. 0)(100 := 11)\<rparr>"
  have full: "maxEntries (YKQueues full2 0) \<le> numEntries (YKQueues full2 0)"
    by (simp add: full2_def)
  have post: "YKQPost running 0 11 = ok (?s1, 1)"
    by (simp add: YKQPost_place state_defs)
  show ?thesis
    using YKQPost_full_or_placed [of full2 0 33 full2 0]
          YKQPost_full_or_placed [of running 0 11 ?s1 1] full post
    by simp
qed

section \<open>First in, first out\<close>

lemma YKQPend_take_msg:
  assumes "numEntries (YKQueues s q) \<noteq> 0"
  shows "YKQPend s q =
     ok (Message
          (s\<lparr>YKQueues := (YKQueues s)
                (q := (YKQueues s q)\<lparr>
                   nextMsg := (if nextMsg (YKQueues s q) = endQ (YKQueues s q)
                               then startQ (YKQueues s q) else nextMsg (YKQueues s q) + 1),
                   numEntries := numEntries (YKQueues s q) - 1\<rparr>)\<rparr>)
          (msgmem s (nextMsg (YKQueues s q))))"
  using assms
  by (cases "intEnabled s")
     (simp_all add: YKQPend_def YKQPend_take_def YKEnterMutex_def YKExitMutex_def
                    restoreMutex_def modQ_def Let_def ok_def)

lemma ok_eq [simp]: "ok x = ok y \<longleftrightarrow> x = y"
  by (simp add: ok_def)

text \<open>
  The posts that return. Take a queue that is empty, with its read and write positions
  equal (as \<^verbatim>\<open>YKQCreate\<close> sets them and as they are whenever the queue has been
  emptied) and room for at least one message. If no task is pending, a post of \<open>m\<close>
  returns. Whenever a post of \<open>m\<close> returns, it returns 1, and the pend that follows
  returns \<open>m\<close> at once and leaves the queue empty. If the queue has four slots and no
  task is pending, then after posts of \<open>m1\<close>, \<open>m2\<close>, \<open>m3\<close>, which all return 1, three
  pends return \<open>m1\<close>, \<open>m2\<close>, \<open>m3\<close> in this order and leave the occupancy at 0,
  wherever in the buffer the positions stand.
\<close>

lemma YKQPost_YKQPend_round_trip:
  assumes "numEntries (YKQueues s q) = 0"
    and "maxEntries (YKQueues s q) \<noteq> 0"
    and "nextSlot (YKQueues s q) = nextMsg (YKQueues s q)"
  shows "(pendHeadQ (YKQueues s q) = None \<longrightarrow> (\<exists>s1. YKQPost s q m = ok (s1, 1))) \<and>
         (\<forall>s1 r. YKQPost s q m = ok (s1, r) \<longrightarrow>
            r = 1 \<and> (\<exists>s2. YKQPend s1 q = ok (Message s2 m) \<and> occupancy q s2 = 0)) \<and>
         (pendHeadQ (YKQueues s q) = None \<and>
          maxEntries (YKQueues s q) = 4 \<and>
          endQ (YKQueues s q) = startQ (YKQueues s q) + 3 \<and>
          startQ (YKQueues s q) \<le> nextMsg (YKQueues s q) \<and>
          nextMsg (YKQueues s q) \<le> endQ (YKQueues s q) \<longrightarrow>
          (\<exists>s1 s2 s3 s4 s5 s6.
              YKQPost s q m1 = ok (s1, 1) \<and> YKQPost s1 q m2 = ok (s2, 1) \<and>
              YKQPost s2 q m3 = ok (s3, 1) \<and>
              YKQPend s3 q = ok (Message s4 m1) \<and> YKQPend s4 q = ok (Message s5 m2) \<and>
              YKQPend s5 q = ok (Message s6 m3) \<and> occupancy q s6 = 0))"
proof (intro conjI impI allI)
  have lt: "numEntries (YKQueues s q) < maxEntries (YKQueues s q)"
    using assms by (simp add: word_greater_zero_iff)
  show "\<exists>s1. YKQPost s q m = ok (s1, 1)" if "pendHeadQ (YKQueues s q) = None"
    using that lt by (simp add: YKQPost_place)
  fix s1 r
  assume "YKQPost s q m = ok (s1, r)"
  then have "YKQPost s q m = Some (Inr (s1, r))"
    by (simp add: ok_def)
  from YKQPost_result [OF this] lt
  have r: "r = 1"
    and k: "numEntries (YKQueues s1 q) = 1" "nextMsg (YKQueues s1 q) = nextMsg (YKQueues s q)"
      "msgmem s1 = (msgmem s)(nextSlot (YKQueues s q) := m)"
    using assms by (auto simp: qkept_def)
  show "r = 1"
    by (rule r)
  show "\<exists>s2. YKQPend s1 q = ok (Message s2 m) \<and> occupancy q s2 = 0"
    using k assms by (simp add: YKQPend_take_msg occupancy_def)
next
  assume four: "pendHeadQ (YKQueues s q) = None \<and>
          maxEntries (YKQueues s q) = 4 \<and>
          endQ (YKQueues s q) = startQ (YKQueues s q) + 3 \<and>
          startQ (YKQueues s q) \<le> nextMsg (YKQueues s q) \<and>
          nextMsg (YKQueues s q) \<le> endQ (YKQueues s q)"
  then consider "nextMsg (YKQueues s q) = startQ (YKQueues s q)"
    | "nextMsg (YKQueues s q) = startQ (YKQueues s q) + 1"
    | "nextMsg (YKQueues s q) = startQ (YKQueues s q) + 2"
    | "nextMsg (YKQueues s q) = startQ (YKQueues s q) + 3"
    by linarith
  then show "\<exists>s1 s2 s3 s4 s5 s6.
              YKQPost s q m1 = ok (s1, 1) \<and> YKQPost s1 q m2 = ok (s2, 1) \<and>
              YKQPost s2 q m3 = ok (s3, 1) \<and>
              YKQPend s3 q = ok (Message s4 m1) \<and> YKQPend s4 q = ok (Message s5 m2) \<and>
              YKQPend s5 q = ok (Message s6 m3) \<and> occupancy q s6 = 0"
    using assms four
    by cases (simp_all add: YKQPost_place YKQPend_take_msg occupancy_def)
qed

lemma YKQPost_YKQPend_round_trip_created:
  "numEntries (YKQueues created 0) = 0 \<and> pendHeadQ (YKQueues created 0) = None \<and>
   maxEntries (YKQueues created 0) = 4 \<and>
   nextSlot (YKQueues created 0) = nextMsg (YKQueues created 0) \<and>
   endQ (YKQueues created 0) = startQ (YKQueues created 0) + 3 \<and>
   (\<exists>s1 s2. YKQPost created 0 7 = ok (s1, 1) \<and> YKQPend s1 0 = ok (Message s2 7) \<and>
            occupancy 0 s2 = 0) \<and>
   (\<exists>s1 s2 s3 s4 s5 s6.
      YKQPost created 0 11 = ok (s1, 1) \<and> YKQPost s1 0 22 = ok (s2, 1) \<and>
      YKQPost s2 0 33 = ok (s3, 1) \<and>
      YKQPend s3 0 = ok (Message s4 11) \<and> YKQPend s4 0 = ok (Message s5 22) \<and>
      YKQPend s5 0 = ok (Message s6 33) \<and> occupancy 0 s6 = 0)"
proof -
  have q: "YKQueues created 0 =
     \<lparr>numEntries = 0, maxEntries = 4, startQ = 100, endQ = 103, nextSlot = 100,
      nextMsg = 100, pendHeadQ = None\<rparr>"
    by (simp add: created_def kernel_defs state_defs)
  have "\<exists>s1. YKQPost created 0 7 = ok (s1, 1)"
    using YKQPost_YKQPend_round_trip [of created 0 7 11 22 33] by (simp add: q)
  then show ?thesis
    using YKQPost_YKQPend_round_trip [of created 0 7 11 22 33]
    by (auto simp: q)
qed

text \<open>
  Claim C3. A post of \<open>m\<close> to an empty queue, and then a pend, should return \<open>m\<close>, for
  every queue; an empty queue may have a task waiting for it. Task 1 pends on the empty
  queue 0 and is suspended as the only task on the pending list. Then a message is
  posted, by the task that runs now or by an interrupt service routine. The post
  should put the message in the queue, move task 1 to the ready list and return 1. In
  the code \<^verbatim>\<open>removePendQ\<close> sets \<^verbatim>\<open>ptr->pendHead\<close> to the \<^verbatim>\<open>next\<close> of the only
  pending task, which is \<^verbatim>\<open>NULL\<close>, and then assigns \<^verbatim>\<open>ptr->pendHead->prev = NULL\<close>:
  the post does not return, and no pend can follow it.
\<close>

theorem queue_post_single_pender_faults:
  "occupancy 0 running = 0 \<and> q_pending 0 running = [] \<and>
   mapR (occupancy 0) (kcalls_run running [QPend 0]) = ok 0 \<and>
   mapR (q_pending 0) (kcalls_run running [QPend 0]) = ok [1] \<and>
   mapR ready_list (kcalls_run running [QPend 0]) = ok [2, 3, 0] \<and>
   kcalls_run running [QPend 0, QPost 0 7] = fault NullDeref \<and>
   kcalls_run running [QPend 0, EnterISR, QPost 0 7] = fault NullDeref"
  by (simp add: kernel_defs state_defs observer_defs cong: bindR_cong_weak)

section \<open>Inserting a task whose priority is taken\<close>






section \<open>The occupancy of the queues\<close>

lemma YKTickHandler_loop_keeps_aux:
  assumes "YKTickHandler_loop s p = Some r"
  shows "\<forall>s'. r = Inr s' \<longrightarrow> YKQueues s' = YKQueues s \<and> msgmem s' = msgmem s"
  by (rule YKTickHandler_loop.raw_induct [OF _ assms])
     (fastforce split: option.splits sum.splits prod.splits if_splits
                dest: insertReady_keeps removeDelayed_keeps)

lemma YKTickHandler_loop_keeps:
  "YKTickHandler_loop s p = Some (Inr s') \<Longrightarrow>
     YKQueues s' = YKQueues s \<and> msgmem s' = msgmem s"
  using YKTickHandler_loop_keeps_aux by blast

text \<open>
  The first part of \<^verbatim>\<open>YKTickHandler\<close>, the tick count and the delayed list, leaves the
  queues and the message slots alone; the second part changes them by its one call of
  \<^verbatim>\<open>YKQPost\<close>.
\<close>

lemma YKTickHandler_delayed_keeps:
  "(if YKDelayedHead s2 \<noteq> None then
      bindR (modT (YKDelayedHead s2) (\<lambda>t. t\<lparr>delayCount := delayCount t - 1\<rparr>) s2) (\<lambda>s3.
      bindR (removeDelayed s3) (\<lambda>(s4, tmp).
      YKTickHandler_loop s4 tmp))
    else ok s2) = Some (Inr s5) \<Longrightarrow>
     YKQueues s5 = YKQueues s2 \<and> msgmem s5 = msgmem s2"
  by (auto simp: ok_def split: if_splits
           elim!: bindR_okE dest!: modT_okD removeDelayed_keeps YKTickHandler_loop_keeps)

lemma occupancy_bounded_upd [simp]:
  "occupancy_bounded (s\<lparr>MsgArray := a\<rparr>) = occupancy_bounded s"
  "occupancy_bounded (s\<lparr>pseudoRand := b\<rparr>) = occupancy_bounded s"
  "occupancy_bounded (s\<lparr>index := c\<rparr>) = occupancy_bounded s"
  "occupancy_bounded (s\<lparr>console := d\<rparr>) = occupancy_bounded s"
  "occupancy_bounded (s\<lparr>intEnabled := e\<rparr>) = occupancy_bounded s"
  "occupancy_bounded (s\<lparr>YKTickNum := f\<rparr>) = occupancy_bounded s"
  by (simp_all add: occupancy_bounded_def)

lemma YKQPost_bounded:
  assumes "YKQPost s q m = Some (Inr (s', r))" and "occupancy_bounded s"
  shows "occupancy_bounded s'"
proof -
  have le: "numEntries (YKQueues s i) \<le> maxEntries (YKQueues s i)" for i
    using assms(2) by (simp add: occupancy_bounded_def)
  from YKQPost_result [OF assms(1)] show ?thesis
    by (auto simp: qkept_def occupancy_bounded_def inc_le le assms(2))
qed

lemma YKTickHandler_delayed_bounded:
  "(if YKDelayedHead s2 \<noteq> None then
      bindR (modT (YKDelayedHead s2) (\<lambda>t. t\<lparr>delayCount := delayCount t - 1\<rparr>) s2) (\<lambda>s3.
      bindR (removeDelayed s3) (\<lambda>(s4, tmp).
      YKTickHandler_loop s4 tmp))
    else ok s2) = Some (Inr s5) \<Longrightarrow> occupancy_bounded s2 \<Longrightarrow> occupancy_bounded s5"
  by (drule YKTickHandler_delayed_keeps) (simp add: occupancy_bounded_def)

lemma YKTickHandler_bounded:
  "YKTickHandler n s = Some (Inr s') \<Longrightarrow> occupancy_bounded s \<Longrightarrow> occupancy_bounded s'"
  unfolding YKTickHandler_def Let_def
  apply (cases "YKEnterMutex s")
  apply (simp only: prod.case)
  apply (erule bindR_okE)
  apply (drule YKTickHandler_delayed_bounded)
   apply (auto simp: YKEnterMutex_def)[1]
  apply (erule bindR_okE)
  apply (auto simp: ok_def fault_def YKExitMutex_def printString_def
              split: option.splits if_splits elim!: bindR_okE dest!: YKQPost_bounded)
  done

lemma YKNewTask_keeps:
  "YKNewTask s p = Some (Inr s') \<Longrightarrow> YKQueues s' = YKQueues s \<and> msgmem s' = msgmem s"
  unfolding YKNewTask_def
  by (auto simp: ok_def fault_def Let_def YKEnterMutex_def YKExitMutex_def restoreMutex_def
                 allocateTCB_def printString_def inPool_def
           split: if_splits
           elim!: bindR_okE dest!: insertReady_keeps YKScheduler_keeps)

lemma YKRun_keeps:
  "YKRun s = Some (Inr s') \<Longrightarrow> YKQueues s' = YKQueues s \<and> msgmem s' = msgmem s"
  unfolding YKRun_def
  by (auto simp: ok_def Let_def YKExitMutex_def printString_def split: if_splits
           elim!: bindR_okE dest!: YKScheduler_keeps)

lemma YKDelayTask_keeps:
  "YKDelayTask s n = Some (Inr s') \<Longrightarrow> YKQueues s' = YKQueues s \<and> msgmem s' = msgmem s"
  unfolding YKDelayTask_def
  by (auto simp: ok_def Let_def YKEnterMutex_def YKExitMutex_def restoreMutex_def
                 printString_def
           split: if_splits
           elim!: bindR_okE
           dest!: removeReady_keeps modT_okD insertDelayed_keeps YKScheduler_keeps)

lemma YKSemPend_keeps:
  "YKSemPend s i = Some (Inr s') \<Longrightarrow> YKQueues s' = YKQueues s \<and> msgmem s' = msgmem s"
  unfolding YKSemPend_def
  by (auto simp: ok_def Let_def YKEnterMutex_def YKExitMutex_def restoreMutex_def modS_def
           split: if_splits
           elim!: bindR_okE
           dest!: removeReady_keeps insertPendSem_keeps YKScheduler_keeps)

lemma YKSemPost_keeps:
  "YKSemPost s i = Some (Inr s') \<Longrightarrow> YKQueues s' = YKQueues s \<and> msgmem s' = msgmem s"
  unfolding YKSemPost_def
  by (auto simp: ok_def Let_def YKEnterMutex_def YKExitMutex_def restoreMutex_def modS_def
           split: if_splits
           elim!: bindR_okE
           dest!: removePendSem_keeps insertReady_keeps YKScheduler_keeps)

lemma YKExitISR_keeps:
  "YKExitISR s = Some (Inr s') \<Longrightarrow> YKQueues s' = YKQueues s \<and> msgmem s' = msgmem s"
  unfolding YKExitISR_def
  by (auto simp: ok_def Let_def split: if_splits dest!: YKScheduler_keeps)

lemma YKQPend_suspended_keeps:
  assumes "YKQPend s q = Some (Inr (Suspended s' b))"
  shows "qkept s s'"
proof -
  let ?s1 = "s\<lparr>intEnabled := False\<rparr>"
  have z: "numEntries (YKQueues s q) = 0"
  proof (rule ccontr)
    assume "numEntries (YKQueues s q) \<noteq> 0"
    from YKQPend_take_msg [OF this] assms show False
      by (simp add: ok_def)
  qed
  then have unf: "YKQPend s q =
      bindR (removeReady ?s1 (YKCurrentTask ?s1)) (\<lambda>s2.
      bindR (insertPendQ s2 (YKCurrentTask s2) q) (\<lambda>s3.
      bindR (YKScheduler s3) (\<lambda>s4.
      if YKCurrentTask s4 \<noteq> YKCurrentTask s3 then ok (Suspended s4 (intEnabled s))
      else (case YKQPend_take s4 q (intEnabled s) of (s5, msg) \<Rightarrow> ok (Message s5 msg)))))"
    by (simp add: YKQPend_def YKEnterMutex_def)
  from assms [unfolded unf] obtain s2 where
    a: "removeReady ?s1 (YKCurrentTask ?s1) = Some (Inr s2)"
    and r2: "bindR (insertPendQ s2 (YKCurrentTask s2) q) (\<lambda>s3.
      bindR (YKScheduler s3) (\<lambda>s4.
      if YKCurrentTask s4 \<noteq> YKCurrentTask s3 then ok (Suspended s4 (intEnabled s))
      else (case YKQPend_take s4 q (intEnabled s) of (s5, msg) \<Rightarrow> ok (Message s5 msg)))) =
      Some (Inr (Suspended s' b))"
    by (erule bindR_okE)
  from r2 obtain s3 where
    b: "insertPendQ s2 (YKCurrentTask s2) q = Some (Inr s3)"
    and r3: "bindR (YKScheduler s3) (\<lambda>s4.
      if YKCurrentTask s4 \<noteq> YKCurrentTask s3 then ok (Suspended s4 (intEnabled s))
      else (case YKQPend_take s4 q (intEnabled s) of (s5, msg) \<Rightarrow> ok (Message s5 msg))) =
      Some (Inr (Suspended s' b))"
    by (erule bindR_okE)
  from r3 obtain s4 where
    c: "YKScheduler s3 = Some (Inr s4)"
    and r4: "(if YKCurrentTask s4 \<noteq> YKCurrentTask s3 then ok (Suspended s4 (intEnabled s))
      else (case YKQPend_take s4 q (intEnabled s) of (s5, msg) \<Rightarrow> ok (Message s5 msg))) =
      Some (Inr (Suspended s' b))"
    by (erule bindR_okE)
  from r4 have "s4 = s'"
    by (simp add: ok_def split: if_splits prod.splits)
  have "qkept s ?s1"
    by (simp add: qkept_def)
  moreover have "qkept ?s1 s2"
    using a by (blast intro: qkept_same dest: removeReady_keeps)
  moreover have "qkept s2 s3"
    using b by (rule insertPendQ_keeps)
  moreover have "qkept s3 s'"
    using c \<open>s4 = s'\<close> by (blast intro: qkept_same dest: YKScheduler_keeps)
  ultimately show ?thesis
    by (blast intro: qkept_trans)
qed

text \<open>
  A create on a pool that is used up prints the error of its allocator and then writes
  through the pointer past the pool; it does not return.
\<close>

lemma YKNewTask_exhausted:
  "int MAX_TASKS + 1 \<le> sint (numTasksCreated s) \<Longrightarrow> YKNewTask s p = fault OutOfBounds"
  by (simp add: YKNewTask_def YKEnterMutex_def allocateTCB_def printString_def inPool_def
                Let_def fault_def)

lemma YKSemCreate_exhausted:
  "int MAX_SEMAPHORES \<le> sint (numSemaphoresCreated s) \<Longrightarrow>
     YKSemCreate s v = fault OutOfBounds"
  by (simp add: YKSemCreate_def YKEnterMutex_def allocateSemaphore_def printString_def
                inPool_def Let_def fault_def)

lemma YKQCreate_exhausted:
  "int MAX_QUEUES \<le> sint (numQueuesCreated s) \<Longrightarrow> YKQCreate s b n = fault OutOfBounds"
  by (simp add: YKQCreate_def YKEnterMutex_def allocateQueue_def printString_def
                inPool_def Let_def fault_def)

lemma qkept_bounded: "qkept s s' \<Longrightarrow> occupancy_bounded s \<Longrightarrow> occupancy_bounded s'"
  by (simp add: qkept_def occupancy_bounded_def)

lemma same_bounded:
  "YKQueues s' = YKQueues s \<and> msgmem s' = msgmem s \<Longrightarrow> occupancy_bounded s \<Longrightarrow>
     occupancy_bounded s'"
  by (simp add: occupancy_bounded_def)

lemma word_pred_le: "(x::16 word) \<noteq> 0 \<Longrightarrow> x \<le> y \<Longrightarrow> x - 1 \<le> y"
  by (simp add: word_le_nat_alt unat_minus_one)

text \<open>
  Claim C8, as the claim states it, fails. Tasks 1 and 2 pend on the empty queue 0 and
  are suspended; an interrupt service routine posts a message. \<^verbatim>\<open>YKQPost\<close> readies
  task 1 only and leaves the message in the queue for it: the occupancy is 1 and task 2
  is still on the pending list.
\<close>

theorem post_with_two_pending_leaves_one:
  "mapR (occupancy 0) (kcalls_run running [QPend 0, QPend 0, EnterISR]) = ok 0 \<and>
   mapR (q_pending 0) (kcalls_run running [QPend 0, QPend 0, EnterISR]) = ok [1, 2] \<and>
   mapR (occupancy 0) (kcalls_run running [QPend 0, QPend 0, EnterISR, QPost 0 7]) = ok 1 \<and>
   mapR (capacity 0) (kcalls_run running [QPend 0, QPend 0, EnterISR, QPost 0 7]) = ok 4 \<and>
   mapR (q_pending 0) (kcalls_run running [QPend 0, QPend 0, EnterISR, QPost 0 7]) = ok [2] \<and>
   mapR ready_list (kcalls_run running [QPend 0, QPend 0, EnterISR, QPost 0 7]) = ok [1, 3, 0]"
  by (simp add: kernel_defs state_defs observer_defs cong: bindR_cong_weak)

text \<open>
  Claim C8, amended. The occupancy of every queue stays between 0 and the capacity
  across every kernel call that runs to its end, as long as the call does not take a
  message out of an empty queue. A call runs to its end when it returns without an
  access through \<^verbatim>\<open>NULL\<close> and without a write past the end of a pool: a create on a
  pool that is used up is not such a call, and neither is \<^verbatim>\<open>YKInitialize\<close>. The tick
  is the whole of \<^verbatim>\<open>YKTickHandler\<close>, its post to the queue of the application
  included. (The occupancy is unsigned, so it is never below 0.)
\<close>

theorem occupancy_bounded_preserved:
  assumes "occupancy_bounded s" and "\<not> takes_from_empty s c" and "kcall_run s c = ok s'"
  shows "occupancy_bounded s'"
proof -
  have le: "numEntries (YKQueues s i) \<le> maxEntries (YKQueues s i)" for i
    using assms(1) by (simp add: occupancy_bounded_def)
  show ?thesis
  proof (cases c)
  case Initialize
  with assms(3) show ?thesis
    by (simp add: ok_def YKInitialize_never_returns)
next
  case (NewTask p)
  with assms show ?thesis
    by (auto simp: ok_def dest!: YKNewTask_keeps intro: same_bounded)
next
  case Run
  with assms show ?thesis
    by (auto simp: ok_def dest!: YKRun_keeps intro: same_bounded)
next
  case (DelayTask n)
  with assms show ?thesis
    by (auto simp: ok_def dest!: YKDelayTask_keeps intro: same_bounded)
next
  case (SemCreate v)
  with assms show ?thesis
    by (auto simp: ok_def fault_def YKSemCreate_def YKEnterMutex_def YKExitMutex_def
                   restoreMutex_def allocateSemaphore_def printString_def modS_def Let_def
                   inPool_def occupancy_bounded_def
             split: if_splits dest!: mapR_okD elim!: bindR_okE)
next
  case (SemPend i)
  with assms show ?thesis
    by (auto simp: ok_def dest!: YKSemPend_keeps intro: same_bounded)
next
  case (SemPost i)
  with assms show ?thesis
    by (auto simp: ok_def dest!: YKSemPost_keeps intro: same_bounded)
next
  case (QCreate b n)
  with assms show ?thesis
    by (auto simp: ok_def fault_def YKQCreate_def YKEnterMutex_def YKExitMutex_def
                   restoreMutex_def allocateQueue_def printString_def modQ_def Let_def
                   inPool_def occupancy_bounded_def
             split: if_splits dest!: mapR_okD elim!: bindR_okE)
next
  case (QPend q)
  show ?thesis
  proof (cases "numEntries (YKQueues s q) = 0")
    case True
    from assms(3) QPend obtain r where r: "YKQPend s q = Some (Inr r)" and s': "s' = qpend_state r"
      by (auto simp: ok_def dest!: mapR_okD)
    from assms(2) QPend True r obtain s1 b where "r = Suspended s1 b"
      by (cases r) (auto simp: takes_from_empty_def)
    with r s' assms(1) show ?thesis
      by (auto simp: qpend_state_def dest!: YKQPend_suspended_keeps intro: qkept_bounded)
  next
    case False
    with assms(3) QPend show ?thesis
      by (auto simp: YKQPend_take_msg qpend_state_def occupancy_bounded_def ok_def
                     word_pred_le le)
  qed
next
  case (QPendResume q b)
  with assms(2,3) show ?thesis
    by (auto simp: ok_def YKQPend_take_def modQ_def Let_def restoreMutex_def YKExitMutex_def
                   takes_from_empty_def occupancy_bounded_def word_pred_le le)
next
  case (QPost q m)
  with assms(3) obtain r where r: "YKQPost s q m = Some (Inr (s', r))"
    by (auto simp: ok_def dest!: mapR_okD)
  from YKQPost_result [OF r] show ?thesis
    by (auto simp: qkept_def occupancy_bounded_def inc_le le assms(1))
next
  case EnterISR
  with assms show ?thesis
    by (auto simp: YKEnterISR_def occupancy_bounded_def)
next
  case ExitISR
  with assms show ?thesis
    by (auto simp: ok_def dest!: YKExitISR_keeps intro: same_bounded)
next
  case Scheduler
  with assms show ?thesis
    by (auto simp: ok_def dest!: YKScheduler_keeps intro: same_bounded)
next
  case EnterMutex
  with assms show ?thesis
    by (auto simp: YKEnterMutex_def occupancy_bounded_def)
next
  case ExitMutex
  with assms show ?thesis
    by (auto simp: YKExitMutex_def occupancy_bounded_def)
next
  case (Tick n)
  with assms show ?thesis
    by (auto simp: ok_def intro: YKTickHandler_bounded)
  qed
qed

theorem occupancy_bounded_preserved_witness:
  "occupancy_bounded running \<and> \<not> takes_from_empty running (QPost 0 7) \<and>
   \<not> takes_from_empty running (Tick 20) \<and>
   (\<exists>s'. kcall_run running (QPost 0 7) = ok s' \<and> occupancy 0 s' = 1 \<and>
         occupancy_bounded s') \<and>
   (\<exists>s'. kcall_run running (Tick 20) = ok s' \<and> occupancy 0 s' = 1 \<and>
         occupancy_bounded s')"
proof -
  have b: "occupancy_bounded running"
    by (simp add: occupancy_bounded_def state_defs)
  have t: "\<not> takes_from_empty running (QPost 0 7)"
    by (simp add: takes_from_empty_def)
  have t': "\<not> takes_from_empty running (Tick 20)"
    by (simp add: takes_from_empty_def)
  have "\<exists>s'. kcall_run running (QPost 0 7) = ok s' \<and> occupancy 0 s' = 1"
    by (simp add: YKQPost_place state_defs occupancy_def ok_def)
  then obtain s' where r: "kcall_run running (QPost 0 7) = ok s'" and o: "occupancy 0 s' = 1"
    by blast
  have "\<exists>s'. kcall_run running (Tick 20) = ok s' \<and> occupancy 0 s' = 1"
    by (simp add: kernel_defs state_defs occupancy_def cong: bindR_cong_weak)
  then obtain s'' where r': "kcall_run running (Tick 20) = ok s''"
    and o': "occupancy 0 s'' = 1"
    by blast
  from occupancy_bounded_preserved [OF b t r] occupancy_bounded_preserved [OF b t' r']
    b t t' r o r' o' show ?thesis
    by blast
qed

end
